theory Spec2Isabelle
  imports Complex_Main "HOL-Library.Sublist" "HOL-Library.AList"
begin

section \<open>JavaScript values used by the detection engine\<close>

text \<open>
  The engine is the class \<^verbatim>\<open>AIDetectionSystem\<close> of \<^verbatim>\<open>src/frontend/js/detection.js\<close>.
  Its numbers are IEEE doubles; the model computes with exact reals. Counters are \<open>nat\<close>,
  millisecond timestamps (\<^verbatim>\<open>Date.now()\<close>) are \<open>int\<close> and are passed in by the caller.
  A property that may be \<^verbatim>\<open>undefined\<close> or \<^verbatim>\<open>null\<close> is an \<open>option\<close>. Reading a property
  of \<^verbatim>\<open>undefined\<close> throws a \<^verbatim>\<open>TypeError\<close>, which is a value of the model.
  Console output is not modelled.
\<close>

datatype error = TypeError

datatype jsnum = Num real | PosInf | NegInf | NaN

text \<open>Division of two finite doubles, with JavaScript's results for a zero divisor.\<close>

definition js_div :: "real \<Rightarrow> real \<Rightarrow> jsnum" where
  "js_div a b =
     (if b \<noteq> 0 then Num (a / b)
      else if a > 0 then PosInf
      else if a < 0 then NegInf
      else NaN)"

fun js_times :: "jsnum \<Rightarrow> real \<Rightarrow> jsnum" where
  "js_times (Num a) k = Num (a * k)"
| "js_times PosInf k = (if k > 0 then PosInf else if k < 0 then NegInf else NaN)"
| "js_times NegInf k = (if k > 0 then NegInf else if k < 0 then PosInf else NaN)"
| "js_times NaN k = NaN"

fun js_abs :: "jsnum \<Rightarrow> jsnum" where
  "js_abs (Num a) = Num \<bar>a\<bar>"
| "js_abs PosInf = PosInf"
| "js_abs NegInf = PosInf"
| "js_abs NaN = NaN"

text \<open>Comparisons of a JavaScript number with a finite constant; every comparison with NaN is false.\<close>

fun js_gt :: "jsnum \<Rightarrow> real \<Rightarrow> bool" where
  "js_gt (Num a) k = (a > k)"
| "js_gt PosInf k = True"
| "js_gt NegInf k = False"
| "js_gt NaN k = False"

fun js_ge :: "jsnum \<Rightarrow> real \<Rightarrow> bool" where
  "js_ge (Num a) k = (a \<ge> k)"
| "js_ge PosInf k = True"
| "js_ge NegInf k = False"
| "js_ge NaN k = False"

fun js_le :: "jsnum \<Rightarrow> real \<Rightarrow> bool" where
  "js_le (Num a) k = (a \<le> k)"
| "js_le PosInf k = False"
| "js_le NegInf k = True"
| "js_le NaN k = False"


text \<open>\<^verbatim>\<open>x >= k\<close> for a property \<open>x\<close> that may be \<^verbatim>\<open>undefined\<close> (then the comparison is false).\<close>

definition opt_ge :: "real option \<Rightarrow> real \<Rightarrow> bool" where
  "opt_ge x k = (case x of None \<Rightarrow> False | Some v \<Rightarrow> v \<ge> k)"

text \<open>\<^verbatim>\<open>String.prototype.toLowerCase\<close> on ASCII text.\<close>

definition toLowerChar :: "char \<Rightarrow> char" where
  "toLowerChar c =
     (case map_of (zip ''ABCDEFGHIJKLMNOPQRSTUVWXYZ'' ''abcdefghijklmnopqrstuvwxyz'') c of
        Some l \<Rightarrow> l
      | None \<Rightarrow> c)"

definition toLowerCase :: "string \<Rightarrow> string" where
  "toLowerCase s = map toLowerChar s"

text \<open>\<open>str_includes s t\<close> is \<^verbatim>\<open>s.includes(t)\<close>: \<open>t\<close> occurs in \<open>s\<close> as a contiguous substring.\<close>

fun str_includes :: "string \<Rightarrow> string \<Rightarrow> bool" where
  "str_includes [] t = (t = [])"
| "str_includes (c # cs) t = (prefix t (c # cs) \<or> str_includes cs t)"

section \<open>Detections and violations\<close>

text \<open>
  One record of the object detector's result. \<open>bbox\<close> is \<^verbatim>\<open>[x, y, width, height]\<close>;
  \<open>boundingBox\<close> is the alternative format \<^verbatim>\<open>{xMin, yMin, width, height}\<close> read by
  \<^verbatim>\<open>extractBoundingBox\<close>. A missing property is \<open>None\<close>.
\<close>

record Prediction =
  cls :: "string option"
  score :: "real option"
  bbox :: "(real \<times> real \<times> real \<times> real) option"
  boundingBox :: "(real \<times> real \<times> real \<times> real) option"

datatype Severity = Low | Medium | High

text \<open>
  What \<^verbatim>\<open>triggerViolation(type, message, severity)\<close> hands to the violation callback.
  \<open>message\<close> keeps the message template up to its first interpolated number; the timestamp
  and the constant confidence field are left out. A function that calls
  \<^verbatim>\<open>triggerViolation\<close> returns the violations it emitted, in order.
\<close>

record Violation =
  vtype :: string
  message :: string
  severity :: Severity

section \<open>Per-type hysteresis tracker\<close>

record ObjectTrackState =
  consecutiveDetections :: nat
  missedFrames :: nat
  lastDetectionTime :: "int option"
  confidence :: real

text \<open>
  \<^verbatim>\<open>this.objectTracker\<close>. \<open>trackedObjects\<close> is a \<^verbatim>\<open>Map\<close>, iterated in insertion order:
  an association list with distinct keys. \<open>gracePeriod\<close> and \<open>violationThresholds\<close> are plain
  objects keyed by type name, with the key \<^verbatim>\<open>default\<close>; the numbers stored in them are
  taken to be non-negative integers, and a type name is taken not to be the name of a
  property that every JavaScript object inherits.
\<close>

record ObjectTracker =
  trackedObjects :: "(string \<times> ObjectTrackState) list"
  gracePeriod :: "string \<rightharpoonup> nat"
  violationThresholds :: "string \<rightharpoonup> nat"

definition thresholds_high :: real where "thresholds_high = 0.8"
definition thresholds_medium :: real where "thresholds_medium = 0.5"
definition thresholds_low :: real where "thresholds_low = 0.2"

definition newTrackState :: ObjectTrackState where
  "newTrackState =
     \<lparr>consecutiveDetections = 0, missedFrames = 0, lastDetectionTime = None, confidence = 0\<rparr>"

definition initializeObjectTracking :: "ObjectTracker \<Rightarrow> ObjectTracker" where
  "initializeObjectTracking tr =
     tr\<lparr>trackedObjects :=
          AList.update ''book'' newTrackState
            (AList.update ''mobile'' newTrackState (trackedObjects tr))\<rparr>"

text \<open>The tracker as the constructor leaves it.\<close>

definition initialObjectTracker :: ObjectTracker where
  "initialObjectTracker =
     initializeObjectTracking
       \<lparr>trackedObjects = [],
        gracePeriod = [''mobile'' \<mapsto> 3, ''book'' \<mapsto> 4, ''default'' \<mapsto> 2],
        violationThresholds = [''mobile'' \<mapsto> 3, ''book'' \<mapsto> 4, ''default'' \<mapsto> 3]\<rparr>"

text \<open>
  \<^verbatim>\<open>table[objectType] || table.default\<close>: a missing or zero entry falls back to the default;
  \<open>None\<close> is \<^verbatim>\<open>undefined\<close>.
\<close>

definition paramFor :: "(string \<rightharpoonup> nat) \<Rightarrow> string \<Rightarrow> nat option" where
  "paramFor table objectType =
     (case table objectType of
        Some v \<Rightarrow> (if v \<noteq> 0 then Some v else table ''default'')
      | None \<Rightarrow> table ''default'')"

text \<open>The \<^verbatim>\<open>options\<close> argument of \<^verbatim>\<open>registerObjectType\<close>.\<close>

record RegisterOptions =
  opt_gracePeriod :: "nat option"
  opt_violationThreshold :: "nat option"

definition truthy :: "nat option \<Rightarrow> bool" where
  "truthy v = (case v of None \<Rightarrow> False | Some n \<Rightarrow> n \<noteq> 0)"

definition has :: "(string \<times> ObjectTrackState) list \<Rightarrow> string \<Rightarrow> bool" where
  "has objs objectType = (map_of objs objectType \<noteq> None)"

definition registerObjectType :: "ObjectTracker \<Rightarrow> string \<Rightarrow> RegisterOptions \<Rightarrow> ObjectTracker" where
  "registerObjectType tr objectType options =
     (if \<not> has (trackedObjects tr) objectType then
        let tr1 = tr\<lparr>trackedObjects := AList.update objectType newTrackState (trackedObjects tr)\<rparr>;
            tr2 = (if truthy (opt_gracePeriod options)
                   then tr1\<lparr>gracePeriod := (gracePeriod tr1)(objectType := opt_gracePeriod options)\<rparr>
                   else tr1);
            tr3 = (if truthy (opt_violationThreshold options)
                   then tr2\<lparr>violationThresholds :=
                             (violationThresholds tr2)(objectType := opt_violationThreshold options)\<rparr>
                   else tr2)
        in tr3
      else tr)"

definition getSearchTermsForObjectType :: "string \<Rightarrow> string list" where
  "getSearchTermsForObjectType objectType =
     (if objectType = ''mobile'' then [''cell phone'', ''mobile phone'', ''phone'', ''smartphone'']
      else if objectType = ''book''
        then [''book'', ''notebook'', ''paper'', ''magazine'', ''journal'', ''textbook'']
      else if objectType = ''remote'' then [''remote'', ''tv remote'']
      else if objectType = ''cup'' then [''cup'', ''mug'', ''bottle'']
      else [objectType])"

text \<open>\<^verbatim>\<open>terms.some(term => className.includes(term) || term.includes(className))\<close>\<close>

definition matchesAny :: "string \<Rightarrow> string list \<Rightarrow> bool" where
  "matchesAny className terms =
     list_ex (\<lambda>term. str_includes className term \<or> str_includes term className) terms"

text \<open>
  \<^verbatim>\<open>predictions.find(...)\<close>: the first matching record. The callback lower-cases the class of
  every record it visits, and throws on a record without one.
\<close>

fun findObjectInPredictions :: "Prediction list \<Rightarrow> string \<Rightarrow> error + Prediction option" where
  "findObjectInPredictions [] objectType = Inr None"
| "findObjectInPredictions (p # ps) objectType =
     (case cls p of
        None \<Rightarrow> Inl TypeError
      | Some c \<Rightarrow>
          if matchesAny (toLowerCase c) (getSearchTermsForObjectType objectType) then Inr (Some p)
          else findObjectInPredictions ps objectType)"

text \<open>
  The three handlers below read the state object of \<open>objectType\<close> from \<open>trackedObjects\<close> and
  mutate it. They are called from the loop of \<^verbatim>\<open>updateObjectTracking\<close> over the entries
  of that map only, so the model passes the entry's state and returns the mutated state.
\<close>

definition handleObjectDetected ::
  "string \<Rightarrow> Prediction \<Rightarrow> int \<Rightarrow> ObjectTrackState \<Rightarrow> ObjectTrackState" where
  "handleObjectDetected objectType detection currentTime state =
     (case score detection of
        None \<Rightarrow> state
      | Some conf \<Rightarrow>
          if conf \<ge> thresholds_high then
            state\<lparr>consecutiveDetections := consecutiveDetections state + 1, missedFrames := 0,
                  confidence := conf, lastDetectionTime := Some currentTime\<rparr>
          else if conf \<ge> thresholds_medium then
            state\<lparr>consecutiveDetections := consecutiveDetections state + 1, missedFrames := 0,
                  confidence := conf, lastDetectionTime := Some currentTime\<rparr>
          else if conf \<ge> thresholds_low then
            state\<lparr>missedFrames := 0, confidence := conf, lastDetectionTime := Some currentTime\<rparr>
          else state)"

definition handleObjectMissed ::
  "ObjectTracker \<Rightarrow> string \<Rightarrow> int \<Rightarrow> ObjectTrackState \<Rightarrow> ObjectTrackState" where
  "handleObjectMissed tr objectType currentTime state =
     (let state1 = state\<lparr>missedFrames := missedFrames state + 1\<rparr>
      in case paramFor (gracePeriod tr) objectType of
           None \<Rightarrow> state1
         | Some grace \<Rightarrow>
             if missedFrames state1 > grace
             then state1\<lparr>consecutiveDetections := 0, confidence := 0\<rparr>
             else state1)"

definition checkObjectViolation ::
  "ObjectTracker \<Rightarrow> string \<Rightarrow> ObjectTrackState \<Rightarrow> ObjectTrackState \<times> Violation list" where
  "checkObjectViolation tr objectType state =
     (case paramFor (violationThresholds tr) objectType of
        None \<Rightarrow> (state, [])
      | Some threshold \<Rightarrow>
          if consecutiveDetections state \<ge> threshold \<and> confidence state \<ge> thresholds_medium then
            let severity =
                  (if confidence state \<ge> thresholds_high
                      \<or> consecutiveDetections state \<ge> threshold + 2
                   then High else Medium)
            in (state\<lparr>consecutiveDetections := threshold div 2\<rparr>,
                [\<lparr>vtype = objectType @ ''_detected_stateful'',
                  message = objectType @ '' consistently detected over '',
                  severity = severity\<rparr>])
          else (state, []))"

text \<open>The body of the loop of \<^verbatim>\<open>updateObjectTracking\<close> for one entry of the map.\<close>

definition trackObject ::
  "ObjectTracker \<Rightarrow> Prediction list \<Rightarrow> int \<Rightarrow> string \<Rightarrow> ObjectTrackState
     \<Rightarrow> error + (ObjectTrackState \<times> Violation list)" where
  "trackObject tr predictions currentTime objectType state =
     (case findObjectInPredictions predictions objectType of
        Inl e \<Rightarrow> Inl e
      | Inr found \<Rightarrow>
          Inr (checkObjectViolation tr objectType
                 (case found of
                    Some detection \<Rightarrow> handleObjectDetected objectType detection currentTime state
                  | None \<Rightarrow> handleObjectMissed tr objectType currentTime state)))"

text \<open>
  The loop over the entries. An exception leaves the entries already visited mutated and
  ends the loop; the third component is the exception, if any.
\<close>

fun trackEntries ::
  "ObjectTracker \<Rightarrow> Prediction list \<Rightarrow> int \<Rightarrow> (string \<times> ObjectTrackState) list
     \<Rightarrow> (string \<times> ObjectTrackState) list \<times> Violation list \<times> error option" where
  "trackEntries tr predictions currentTime [] = ([], [], None)"
| "trackEntries tr predictions currentTime ((objectType, state) # rest) =
     (case trackObject tr predictions currentTime objectType state of
        Inl e \<Rightarrow> ((objectType, state) # rest, [], Some e)
      | Inr (state', vs) \<Rightarrow>
          (case trackEntries tr predictions currentTime rest of
             (rest', vs', err) \<Rightarrow> ((objectType, state') # rest', vs @ vs', err)))"

definition updateObjectTracking ::
  "ObjectTracker \<Rightarrow> Prediction list \<Rightarrow> int \<Rightarrow> ObjectTracker \<times> Violation list \<times> error option" where
  "updateObjectTracking tr predictions currentTime =
     (case trackEntries tr predictions currentTime (trackedObjects tr) of
        (objs, vs, err) \<Rightarrow> (tr\<lparr>trackedObjects := objs\<rparr>, vs, err))"

text \<open>Several ticks in a row, each with its predictions and its clock; the violations of all ticks.\<close>

fun runTracking ::
  "ObjectTracker \<Rightarrow> (Prediction list \<times> int) list \<Rightarrow> ObjectTracker \<times> Violation list" where
  "runTracking tr [] = (tr, [])"
| "runTracking tr ((predictions, currentTime) # ticks) =
     (case updateObjectTracking tr predictions currentTime of
        (tr', vs, err) \<Rightarrow>
          (case runTracking tr' ticks of (tr'', vs') \<Rightarrow> (tr'', vs @ vs')))"

text \<open>
  A tracker with one more type, \<^verbatim>\<open>registerObjectType('remote')\<close>, which has no grace
  period or threshold of its own and so uses the defaults.
\<close>

definition remoteTracker :: ObjectTracker where
  "remoteTracker =
     registerObjectType initialObjectTracker ''remote''
       \<lparr>opt_gracePeriod = None, opt_violationThreshold = None\<rparr>"

section \<open>Focus state machine\<close>

text \<open>
  A face landmark; only its coordinates \<^verbatim>\<open>x\<close> and \<^verbatim>\<open>y\<close> are read, and they are taken to
  be finite numbers. A landmark list may have
  entries that are \<^verbatim>\<open>null\<close> or \<^verbatim>\<open>undefined\<close> (\<open>None\<close>); indexing past the end gives
  \<^verbatim>\<open>undefined\<close> as well.
\<close>

record Point =
  px :: real
  py :: real

record Face =
  landmarks :: "Point option list option"

definition landmarkAt :: "Point option list \<Rightarrow> nat \<Rightarrow> Point option" where
  "landmarkAt lm i = (if i < length lm then lm ! i else None)"

text \<open>
  \<^verbatim>\<open>calculateHeadAngle\<close>. Reading \<^verbatim>\<open>.x\<close> of a missing landmark throws inside the
  \<^verbatim>\<open>try\<close>, and the \<^verbatim>\<open>catch\<close> returns 0.
\<close>

definition calculateHeadAngle :: "Face \<Rightarrow> jsnum" where
  "calculateHeadAngle face =
     (case landmarks face of
        None \<Rightarrow> Num 0
      | Some lm \<Rightarrow>
          if length lm < 468 then Num 0
          else
            (case (landmarkAt lm 1, landmarkAt lm 33, landmarkAt lm 263,
                   landmarkAt lm 61, landmarkAt lm 291) of
               (Some noseTip, Some leftEye, Some rightEye, Some leftMouth, Some rightMouth) \<Rightarrow>
                 let eyeCenterX = (px leftEye + px rightEye) / 2;
                     mouthCenterX = (px leftMouth + px rightMouth) / 2;
                     noseTipX = px noseTip;
                     faceWidth = \<bar>px rightEye - px leftEye\<bar>;
                     noseOffset = noseTipX - eyeCenterX
                 in js_times (js_div noseOffset faceWidth) 90
             | _ \<Rightarrow> Num 0))"

text \<open>
  The fields of the engine that the focus logic reads and writes. The statistics counters
  are left out.
\<close>

record FocusState =
  lookingAwayStartTime :: "int option"
  noFaceStartTime :: "int option"
  isCurrentlyLookingAway :: bool
  isCurrentlyNoFace :: bool
  showFocusWarning :: bool
  focusWarningType :: "string option"
  lastFaceDetection :: int

definition lookingAwayThreshold :: int where "lookingAwayThreshold = 5000"
definition noFaceThreshold :: int where "noFaceThreshold = 10000"
definition headAngleThreshold :: real where "headAngleThreshold = 25"

text \<open>The focus fields as the constructor leaves them, built at time \<open>t0\<close>.\<close>

definition initialFocusState :: "int \<Rightarrow> FocusState" where
  "initialFocusState t0 =
     \<lparr>lookingAwayStartTime = None, noFaceStartTime = None,
      isCurrentlyLookingAway = False, isCurrentlyNoFace = False,
      showFocusWarning = False, focusWarningType = None, lastFaceDetection = t0\<rparr>"

definition hideFocusWarning :: "FocusState \<Rightarrow> FocusState" where
  "hideFocusWarning s =
     (if showFocusWarning s then s\<lparr>showFocusWarning := False, focusWarningType := None\<rparr>
      else s)"

definition resetNoFaceTimer :: "FocusState \<Rightarrow> FocusState" where
  "resetNoFaceTimer s =
     (if isCurrentlyNoFace s
      then hideFocusWarning (s\<lparr>noFaceStartTime := None, isCurrentlyNoFace := False\<rparr>)
      else s)"

definition resetLookingAwayTimer :: "FocusState \<Rightarrow> FocusState" where
  "resetLookingAwayTimer s =
     (if isCurrentlyLookingAway s
      then hideFocusWarning (s\<lparr>lookingAwayStartTime := None, isCurrentlyLookingAway := False\<rparr>)
      else s)"

text \<open>\<^verbatim>\<open>currentTime - start\<close>, where a \<^verbatim>\<open>null\<close> start converts to 0.\<close>

definition elapsedSince :: "int \<Rightarrow> int option \<Rightarrow> int" where
  "elapsedSince currentTime start =
     currentTime - (case start of None \<Rightarrow> 0 | Some t \<Rightarrow> t)"

definition handleNoFaceDetection :: "FocusState \<Rightarrow> int \<Rightarrow> FocusState \<times> Violation list" where
  "handleNoFaceDetection s currentTime =
     (let (s1, vs) =
            (if \<not> isCurrentlyNoFace s then
               (s\<lparr>noFaceStartTime := Some currentTime, isCurrentlyNoFace := True\<rparr>, [])
             else if elapsedSince currentTime (noFaceStartTime s) \<ge> noFaceThreshold then
               (s\<lparr>showFocusWarning := True, focusWarningType := Some ''no_face'',
                  noFaceStartTime := Some currentTime\<rparr>,
                [\<lparr>vtype = ''no_face'', message = ''No face detected for '', severity = High\<rparr>])
             else (s, []))
      in (resetLookingAwayTimer s1, vs))"

definition handleLookingAwayDetection ::
  "FocusState \<Rightarrow> int \<Rightarrow> jsnum \<Rightarrow> FocusState \<times> Violation list" where
  "handleLookingAwayDetection s currentTime headAngle =
     (if \<not> isCurrentlyLookingAway s then
        (s\<lparr>lookingAwayStartTime := Some currentTime, isCurrentlyLookingAway := True\<rparr>, [])
      else if elapsedSince currentTime (lookingAwayStartTime s) \<ge> lookingAwayThreshold then
        (s\<lparr>showFocusWarning := True, focusWarningType := Some ''looking_away'',
           lookingAwayStartTime := Some currentTime\<rparr>,
         [\<lparr>vtype = ''looking_away'', message = ''Looking away from screen for '',
           severity = Medium\<rparr>])
      else (s, []))"

definition handleSingleFaceDetection ::
  "FocusState \<Rightarrow> Face \<Rightarrow> int \<Rightarrow> FocusState \<times> Violation list" where
  "handleSingleFaceDetection s face currentTime =
     (let s1 = resetNoFaceTimer s;
          headAngle = calculateHeadAngle face;
          (s2, vs) =
            (if js_gt (js_abs headAngle) headAngleThreshold
             then handleLookingAwayDetection s1 currentTime headAngle
             else (hideFocusWarning (resetLookingAwayTimer s1), []))
      in (s2\<lparr>lastFaceDetection := currentTime\<rparr>, vs))"

definition processFocusDetection ::
  "FocusState \<Rightarrow> Face list \<Rightarrow> int \<Rightarrow> FocusState \<times> Violation list" where
  "processFocusDetection s faces currentTime =
     (if length faces > 1 then
        (hideFocusWarning (resetLookingAwayTimer (resetNoFaceTimer s)),
         [\<lparr>vtype = ''multiple_faces'', message = ''Multiple faces detected: '',
           severity = High\<rparr>])
      else if length faces = 0 then handleNoFaceDetection s currentTime
      else handleSingleFaceDetection s (hd faces) currentTime)"

text \<open>Several focus ticks in a row, each with its faces and its clock.\<close>

fun runFocus :: "FocusState \<Rightarrow> (Face list \<times> int) list \<Rightarrow> FocusState \<times> Violation list" where
  "runFocus s [] = (s, [])"
| "runFocus s ((faces, currentTime) # ticks) =
     (case processFocusDetection s faces currentTime of
        (s1, vs) \<Rightarrow> (case runFocus s1 ticks of (s2, vs') \<Rightarrow> (s2, vs @ vs')))"

subsection \<open>The gaze estimator of the face-mesh callback\<close>







text \<open>
  What holds of the focus fields in every state the engine reaches: the two flags are not
  both set, and the no-face timer is running while the no-face flag is set.
\<close>

definition focusInvariant :: "FocusState \<Rightarrow> bool" where
  "focusInvariant s =
     (\<not> (isCurrentlyNoFace s \<and> isCurrentlyLookingAway s)
      \<and> (isCurrentlyNoFace s \<longrightarrow> noFaceStartTime s \<noteq> None))"

section \<open>Mobile detection, suspiciousness scoring and violation pathways\<close>

text \<open>A hand as stored in \<^verbatim>\<open>this.detectedHands\<close>: a box with a label and a confidence.\<close>

record Hand =
  hand_x :: real
  hand_y :: real
  hand_width :: real
  hand_height :: real
  hand_label :: string
  hand_confidence :: real

text \<open>
  An entry of \<^verbatim>\<open>mobileDetections\<close>: the prediction's own properties (the spread
  \<^verbatim>\<open>...prediction\<close>) and the added ones.
\<close>

record Detection = Prediction +
  confidenceLevel :: string
  isMobile :: bool
  suspiciousnessScore :: int
  detectionMethod :: "string option"

definition asDetection :: "Prediction \<Rightarrow> string \<Rightarrow> int \<Rightarrow> string option \<Rightarrow> Detection" where
  "asDetection prediction level points method =
     \<lparr>cls = cls prediction, score = score prediction, bbox = bbox prediction,
      boundingBox = boundingBox prediction,
      confidenceLevel = level, isMobile = True, suspiciousnessScore = points,
      detectionMethod = method\<rparr>"

text \<open>The counters of \<^verbatim>\<open>this.violationPathways\<close>; the thresholds beside them are constants.\<close>

record ViolationPathways =
  directMobile :: nat
  misclassifiedObject :: nat
  personWithObject :: nat
  highSuspiciousness :: nat

definition directMobile_threshold :: nat where "directMobile_threshold = 3"
definition misclassifiedObject_threshold :: nat where "misclassifiedObject_threshold = 2"
definition personWithObject_threshold :: nat where "personWithObject_threshold = 4"
definition highSuspiciousness_threshold :: nat where "highSuspiciousness_threshold = 1"

definition misclassifiedObjectThreshold :: int where "misclassifiedObjectThreshold = 100"
definition personWithObjectThreshold :: int where "personWithObjectThreshold = 75"
definition suspiciousObjectTimeLimit :: int where "suspiciousObjectTimeLimit = 3000"
definition requiredSuspiciousFrames :: nat where "requiredSuspiciousFrames = 5"
definition suspiciousnessThreshold :: int where "suspiciousnessThreshold = 120"

text \<open>An entry of \<^verbatim>\<open>this.suspiciousItemsCategories\<close>, in the order of the object's keys.\<close>

record Category =
  categoryName :: string
  items :: "string list"
  baseScore :: int
  violationType :: string
  categorySeverity :: Severity

definition defaultCategories :: "Category list" where
  "defaultCategories =
     [\<lparr>categoryName = ''booksAndPapers'',
       items = [''book'', ''notebook'', ''paper'', ''magazine'', ''journal'', ''textbook''],
       baseScore = 80, violationType = ''books_notes_detected'', categorySeverity = High\<rparr>,
      \<lparr>categoryName = ''electronicDevices'',
       items = [''cell phone'', ''mobile phone'', ''phone'', ''smartphone'', ''tv'', ''remote'',
                ''laptop'', ''mouse'', ''keyboard'', ''tablet'', ''ipad''],
       baseScore = 100, violationType = ''electronic_device_detected'', categorySeverity = High\<rparr>,
      \<lparr>categoryName = ''writingMaterials'',
       items = [''pencil'', ''pen'', ''marker'', ''highlighter'', ''eraser''],
       baseScore = 60, violationType = ''writing_materials_detected'', categorySeverity = Medium\<rparr>,
      \<lparr>categoryName = ''otherSuspicious'',
       items = [''cup'', ''bottle'', ''bag'', ''backpack'', ''wallet'', ''purse'', ''calculator''],
       baseScore = 50, violationType = ''suspicious_item_detected'', categorySeverity = Medium\<rparr>]"

text \<open>
  The fields of the engine that the object pipeline reads and writes. The statistics
  counters are left out. \<open>suspiciousItemsCategories\<close> is not set by the constructor.
\<close>

record Engine =
  phoneDetectedCount :: nat
  phoneMissedCount :: nat
  lastPersonDetection :: "Prediction option"
  consecutiveSuspiciousFrames :: nat
  lastSuspiciousObjectTime :: "int option"
  violationPathways :: ViolationPathways
  detectedHands :: "Hand list"
  suspiciousItemsCategories :: "Category list option"
  personOnlyFrames :: nat
  unknownObjectFrames :: nat
  lastViolationTime :: int
  objectTracker :: ObjectTracker

definition initialEngine :: Engine where
  "initialEngine =
     \<lparr>phoneDetectedCount = 0, phoneMissedCount = 0, lastPersonDetection = None,
      consecutiveSuspiciousFrames = 0, lastSuspiciousObjectTime = None,
      violationPathways =
        \<lparr>directMobile = 0, misclassifiedObject = 0, personWithObject = 0,
         highSuspiciousness = 0\<rparr>,
      detectedHands = [], suspiciousItemsCategories = None,
      personOnlyFrames = 0, unknownObjectFrames = 0, lastViolationTime = 0,
      objectTracker = initialObjectTracker\<rparr>"

definition extractBoundingBox :: "Prediction \<Rightarrow> (real \<times> real \<times> real \<times> real) option" where
  "extractBoundingBox prediction =
     (case bbox prediction of
        Some b \<Rightarrow> Some b
      | None \<Rightarrow> boundingBox prediction)"

definition analyzePhoneShape :: "jsnum \<Rightarrow> real \<Rightarrow> real \<Rightarrow> int" where
  "analyzePhoneShape aspectRatio width height =
     (if js_ge aspectRatio 0.4 \<and> js_le aspectRatio 0.6 then 50
      else if js_ge aspectRatio 1.6 \<and> js_le aspectRatio 2.5 then 50
      else if (js_ge aspectRatio 0.3 \<and> js_le aspectRatio 0.7)
              \<or> (js_ge aspectRatio 1.4 \<and> js_le aspectRatio 3.0) then 25
      else 0)"

text \<open>
  \<^verbatim>\<open>Math.sqrt(d2) < maxDistance\<close> for a sum of squares \<open>d2\<close>, decided without the root.
\<close>

definition closerThan :: "real \<Rightarrow> real \<Rightarrow> bool" where
  "closerThan d2 maxDistance = (0 < maxDistance \<and> d2 < maxDistance\<^sup>2)"

text \<open>The loop of \<^verbatim>\<open>analyzeHandContext\<close> over the hands: the first hand close enough decides.\<close>

fun nearestHandScore :: "Hand list \<Rightarrow> real \<Rightarrow> real \<Rightarrow> real \<Rightarrow> real \<Rightarrow> int" where
  "nearestHandScore [] objectCenterX objectCenterY width height = 0"
| "nearestHandScore (hand # hands) objectCenterX objectCenterY width height =
     (let handCenterX = hand_x hand + hand_width hand / 2;
          handCenterY = hand_y hand + hand_height hand / 2;
          squaredDistance = (objectCenterX - handCenterX)\<^sup>2 + (objectCenterY - handCenterY)\<^sup>2;
          maxDistance = max (hand_width hand) (hand_height hand) / 2 + max width height / 2
      in if closerThan squaredDistance maxDistance then 50 + round (hand_confidence hand * 20)
         else nearestHandScore hands objectCenterX objectCenterY width height)"

definition analyzeHandContext :: "Hand list \<Rightarrow> real \<Rightarrow> real \<Rightarrow> real \<Rightarrow> real \<Rightarrow> int" where
  "analyzeHandContext hands x y width height =
     (if length hands = 0 then 0
      else nearestHandScore hands (x + width / 2) (y + height / 2) width height)"

definition analyzePhoneSize :: "real \<Rightarrow> real \<Rightarrow> int" where
  "analyzePhoneSize width height =
     (let minPhoneSize = 30; maxPhoneSize = 200; objectSize = max width height
      in if objectSize \<ge> minPhoneSize \<and> objectSize \<le> maxPhoneSize then 25
         else if objectSize > maxPhoneSize * 0.7 \<and> objectSize < maxPhoneSize * 1.5 then 10
         else 0)"

text \<open>
  \<^verbatim>\<open>calculateSuspiciousnessScore\<close>, the scorer behind the advanced mobile analysis, given
  the hands of the latest frame. It lower-cases the class first, so a record without a
  class throws.
\<close>

definition calculateSuspiciousnessScore :: "Hand list \<Rightarrow> Prediction \<Rightarrow> error + int" where
  "calculateSuspiciousnessScore hands prediction =
     (case cls prediction of
        None \<Rightarrow> Inl TypeError
      | Some c \<Rightarrow>
          let className = toLowerCase c
          in case extractBoundingBox prediction of
               None \<Rightarrow> Inr 0
             | Some (x, y, width, height) \<Rightarrow>
                 let score1 =
                       (if str_includes className ''phone'' \<or> str_includes className ''cell''
                        then 100
                        else if list_ex (\<lambda>item. str_includes className item)
                                  [''remote'', ''book'', ''bottle'', ''cup'']
                        then 25 else 0);
                     aspectRatio = js_div width height;
                     shapeScore = analyzePhoneShape aspectRatio width height;
                     score2 = score1 + shapeScore;
                     contextScore = analyzeHandContext hands x y width height;
                     score3 = score2 + contextScore;
                     sizeScore = analyzePhoneSize width height;
                     score4 = score3 + sizeScore
                 in Inr score4)"

definition mobileKeywords :: "string list" where
  "mobileKeywords =
     [''cell phone'', ''mobile phone'', ''phone'', ''smartphone'', ''iphone'', ''android'']"

definition mobilePhone_high :: real where "mobilePhone_high = 0.60"
definition mobilePhone_medium :: real where "mobilePhone_medium = 0.45"
definition mobilePhone_low :: real where "mobilePhone_low = 0.30"

text \<open>Phase 1 of \<^verbatim>\<open>checkMobilePhoneDetections\<close>: the \<^verbatim>\<open>forEach\<close> over all predictions.\<close>

fun directMobileDetections :: "Prediction list \<Rightarrow> error + Detection list" where
  "directMobileDetections [] = Inr []"
| "directMobileDetections (prediction # rest) =
     (case cls prediction of
        None \<Rightarrow> Inl TypeError
      | Some c \<Rightarrow>
          (case directMobileDetections rest of
             Inl e \<Rightarrow> Inl e
           | Inr found \<Rightarrow>
               if matchesAny (toLowerCase c) mobileKeywords then
                 (if opt_ge (score prediction) mobilePhone_high
                  then Inr (asDetection prediction ''high'' 100 None # found)
                  else if opt_ge (score prediction) mobilePhone_medium
                  then Inr (asDetection prediction ''medium'' 100 None # found)
                  else if opt_ge (score prediction) mobilePhone_low
                  then Inr (asDetection prediction ''low'' 100 None # found)
                  else Inr found)
               else Inr found))"

text \<open>\<^verbatim>\<open>updatePersonContext\<close>: the first person scoring above 0.5, if any, is remembered.\<close>

fun findPerson :: "Prediction list \<Rightarrow> error + Prediction option" where
  "findPerson [] = Inr None"
| "findPerson (pred # rest) =
     (case cls pred of
        None \<Rightarrow> Inl TypeError
      | Some c \<Rightarrow>
          if toLowerCase c = ''person'' \<and> (case score pred of None \<Rightarrow> False | Some v \<Rightarrow> v > 0.5)
          then Inr (Some pred)
          else findPerson rest)"

definition updatePersonContext :: "Engine \<Rightarrow> Prediction list \<Rightarrow> error + Engine" where
  "updatePersonContext e predictions =
     (case findPerson predictions of
        Inl err \<Rightarrow> Inl err
      | Inr None \<Rightarrow> Inr e
      | Inr (Some personDetection) \<Rightarrow> Inr (e\<lparr>lastPersonDetection := Some personDetection\<rparr>))"

text \<open>The \<^verbatim>\<open>forEach\<close> of \<^verbatim>\<open>performAdvancedMobileAnalysis\<close>.\<close>

fun advancedDetections :: "Hand list \<Rightarrow> Prediction list \<Rightarrow> error + Detection list" where
  "advancedDetections hands [] = Inr []"
| "advancedDetections hands (prediction # rest) =
     (case calculateSuspiciousnessScore hands prediction of
        Inl e \<Rightarrow> Inl e
      | Inr points \<Rightarrow>
          (case advancedDetections hands rest of
             Inl e \<Rightarrow> Inl e
           | Inr found \<Rightarrow>
               if points \<ge> suspiciousnessThreshold
               then Inr (asDetection prediction ''advanced'' points (Some ''advanced-analysis'')
                         # found)
               else Inr found))"

definition performAdvancedMobileAnalysis ::
  "Engine \<Rightarrow> Prediction list \<Rightarrow> error + (Engine \<times> Detection list)" where
  "performAdvancedMobileAnalysis e predictions =
     (case updatePersonContext e predictions of
        Inl err \<Rightarrow> Inl err
      | Inr e1 \<Rightarrow>
          (case advancedDetections (detectedHands e1) predictions of
             Inl err \<Rightarrow> Inl err
           | Inr suspiciousDetections \<Rightarrow> Inr (e1, suspiciousDetections)))"

text \<open>
  \<^verbatim>\<open>checkMobilePhoneDetections\<close>. Phase 1 touches no field of the engine, so when it
  throws the engine is as before; \<^verbatim>\<open>advancedMobileDetection.enabled\<close> is the constant
  \<^verbatim>\<open>true\<close>.
\<close>

definition checkMobilePhoneDetections ::
  "Engine \<Rightarrow> Prediction list \<Rightarrow> error + (Engine \<times> Detection list)" where
  "checkMobilePhoneDetections e predictions =
     (case directMobileDetections predictions of
        Inl err \<Rightarrow> Inl err
      | Inr mobileDetections \<Rightarrow>
          (case performAdvancedMobileAnalysis e predictions of
             Inl err \<Rightarrow> Inl err
           | Inr (e1, advanced) \<Rightarrow> Inr (e1, mobileDetections @ advanced)))"

definition resetAllPathways :: "Engine \<Rightarrow> Engine" where
  "resetAllPathways e =
     e\<lparr>violationPathways :=
         \<lparr>directMobile = 0, misclassifiedObject = 0, personWithObject = 0,
          highSuspiciousness = 0\<rparr>\<rparr>"

text \<open>
  \<^verbatim>\<open>triggerEnhancedViolation\<close>: every pathway reports the type
  \<^verbatim>\<open>mobile_phone_detected\<close>; the message tells the pathways apart.
\<close>

definition triggerEnhancedViolation :: "string \<Rightarrow> Detection \<Rightarrow> Severity \<Rightarrow> Violation" where
  "triggerEnhancedViolation pathway detection sev =
     (let className = (case cls detection of None \<Rightarrow> ''unknown''
                       | Some c \<Rightarrow> if c = [] then ''unknown'' else c);
          msg =
            (if pathway = ''direct_mobile_detection''
               then ''Direct mobile phone detected: '' @ className @ '' (''
             else if pathway = ''misclassified_mobile_object''
               then ''Misclassified mobile phone detected: '' @ className @ '' with ''
             else if pathway = ''person_with_suspicious_object''
               then ''Person detected holding suspicious object: ''
             else if pathway = ''highly_suspicious_object''
               then ''Highly suspicious object detected: '' @ className @ '' with ''
             else if pathway = ''consecutive_suspicious_behavior''
               then ''Consecutive suspicious behavior: '' @ className @ '' detected in ''
             else [])
      in \<lparr>vtype = ''mobile_phone_detected'', message = msg, severity = sev\<rparr>)"

definition processViolationPathways ::
  "Engine \<Rightarrow> Detection \<Rightarrow> error + (Engine \<times> Violation list)" where
  "processViolationPathways e detection =
     (case cls detection of
        None \<Rightarrow> Inl TypeError
      | Some c \<Rightarrow>
          let className = toLowerCase c;
              points = suspiciousnessScore detection;
              pw = violationPathways e
          in Inr
            (if str_includes className ''phone'' \<or> str_includes className ''cell'' then
               (let e1 = e\<lparr>violationPathways := pw\<lparr>directMobile := directMobile pw + 1\<rparr>\<rparr>
                in if directMobile (violationPathways e1) \<ge> directMobile_threshold
                   then (resetAllPathways e1,
                         [triggerEnhancedViolation ''direct_mobile_detection'' detection High])
                   else (e1, []))
             else if points \<ge> misclassifiedObjectThreshold then
               (let e1 = e\<lparr>violationPathways :=
                            pw\<lparr>misclassifiedObject := misclassifiedObject pw + 1\<rparr>\<rparr>
                in if misclassifiedObject (violationPathways e1) \<ge> misclassifiedObject_threshold
                   then (resetAllPathways e1,
                         [triggerEnhancedViolation ''misclassified_mobile_object'' detection High])
                   else (e1, []))
             else if className = ''person'' \<and> points \<ge> personWithObjectThreshold then
               (let e1 = e\<lparr>violationPathways := pw\<lparr>personWithObject := personWithObject pw + 1\<rparr>\<rparr>
                in if personWithObject (violationPathways e1) \<ge> personWithObject_threshold
                   then (resetAllPathways e1,
                         [triggerEnhancedViolation ''person_with_suspicious_object'' detection
                            Medium])
                   else (e1, []))
             else if points \<ge> 150 then
               (let e1 = e\<lparr>violationPathways :=
                            pw\<lparr>highSuspiciousness := highSuspiciousness pw + 1\<rparr>\<rparr>
                in if highSuspiciousness (violationPathways e1) \<ge> highSuspiciousness_threshold
                   then (resetAllPathways e1,
                         [triggerEnhancedViolation ''highly_suspicious_object'' detection High])
                   else (e1, []))
             else if points \<ge> 50 then
               (let e1 = e\<lparr>consecutiveSuspiciousFrames := consecutiveSuspiciousFrames e + 1\<rparr>
                in if consecutiveSuspiciousFrames e1 \<ge> requiredSuspiciousFrames
                   then (e1\<lparr>consecutiveSuspiciousFrames := 0\<rparr>,
                         [triggerEnhancedViolation ''consecutive_suspicious_behavior'' detection
                            Medium])
                   else (e1, []))
             else (e\<lparr>consecutiveSuspiciousFrames := 0\<rparr>, [])))"

text \<open>
  The \<^verbatim>\<open>forEach\<close> of \<^verbatim>\<open>processConsecutiveMobileDetections\<close> over the detections; an
  exception ends it and keeps what was done before.
\<close>

fun processAllPathways ::
  "Engine \<Rightarrow> Detection list \<Rightarrow> Engine \<times> Violation list \<times> error option" where
  "processAllPathways e [] = (e, [], None)"
| "processAllPathways e (detection # rest) =
     (case processViolationPathways e detection of
        Inl err \<Rightarrow> (e, [], Some err)
      | Inr (e1, vs) \<Rightarrow>
          (case processAllPathways e1 rest of
             (e2, vs', err) \<Rightarrow> (e2, vs @ vs', err)))"

definition resetSuspiciousObjectTimer :: "Engine \<Rightarrow> Engine" where
  "resetSuspiciousObjectTimer e =
     (case lastSuspiciousObjectTime e of
        None \<Rightarrow> e
      | Some t \<Rightarrow> if t \<noteq> 0 then e\<lparr>lastSuspiciousObjectTime := None\<rparr> else e)"

definition updateSuspiciousObjectTimer :: "Engine \<Rightarrow> int \<Rightarrow> Engine \<times> Violation list" where
  "updateSuspiciousObjectTimer e currentTime =
     (case lastSuspiciousObjectTime e of
        None \<Rightarrow> (e\<lparr>lastSuspiciousObjectTime := Some currentTime\<rparr>, [])
      | Some t \<Rightarrow>
          if t = 0 then (e\<lparr>lastSuspiciousObjectTime := Some currentTime\<rparr>, [])
          else if currentTime - t \<ge> suspiciousObjectTimeLimit then
            (resetSuspiciousObjectTimer e,
             [\<lparr>vtype = ''mobile_phone_detected'',
               message = ''Suspicious object held in hand for '', severity = Medium\<rparr>])
          else (e, []))"

text \<open>
  \<^verbatim>\<open>reduce((best, current) => current.score > best.score ? current : best)\<close> on a
  non-empty list.
\<close>

fun bestOf :: "Detection \<Rightarrow> Detection list \<Rightarrow> Detection" where
  "bestOf best [] = best"
| "bestOf best (current # rest) =
     bestOf (if (case (score current, score best) of
                   (Some c, Some b) \<Rightarrow> c > b
                 | _ \<Rightarrow> False)
             then current else best) rest"

definition requiredConsecutiveDetections :: nat where "requiredConsecutiveDetections = 3"
definition allowedMissedFrames :: nat where "allowedMissedFrames = 2"

definition processConsecutiveMobileDetections ::
  "Engine \<Rightarrow> Detection list \<Rightarrow> int \<Rightarrow> Engine \<times> Violation list \<times> error option" where
  "processConsecutiveMobileDetections e mobileDetections currentTime =
     (if length mobileDetections > 0 then
        (case processAllPathways e mobileDetections of
           (e1, vs1, Some err) \<Rightarrow> (e1, vs1, Some err)
         | (e1, vs1, None) \<Rightarrow>
             let direct = filter (\<lambda>d. detectionMethod d \<noteq> Some ''advanced-analysis'')
                            mobileDetections;
                 (e3, vs3) =
                   (if length direct > 0 then
                      (let e2 = e1\<lparr>phoneDetectedCount := phoneDetectedCount e1 + 1,
                                   phoneMissedCount := 0\<rparr>
                       in if phoneDetectedCount e2 \<ge> requiredConsecutiveDetections then
                            (let bestDetection = bestOf (hd direct) (tl direct)
                             in (e2\<lparr>phoneDetectedCount := 0, phoneMissedCount := 0\<rparr>,
                                 [\<lparr>vtype = ''mobile_phone_detected'',
                                   message = ''Mobile phone reliably detected: ''
                                     @ (case cls bestDetection of None \<Rightarrow> ''undefined''
                                        | Some c \<Rightarrow> c) @ '' in '',
                                   severity = (if confidenceLevel bestDetection = ''high''
                                               then High else Medium)\<rparr>]))
                          else (e2, []))
                    else (e1, []));
                 (e4, vs4) = updateSuspiciousObjectTimer e3 currentTime
             in (e4, vs1 @ vs3 @ vs4, None))
      else
        (let e1 = e\<lparr>phoneMissedCount := phoneMissedCount e + 1\<rparr>;
             e2 = (if phoneMissedCount e1 > allowedMissedFrames
                   then e1\<lparr>phoneDetectedCount := 0, phoneMissedCount := 0\<rparr> else e1)
         in (resetSuspiciousObjectTimer e2, [], None)))"

section \<open>Other suspicious objects\<close>

text \<open>What \<^verbatim>\<open>analyzeSuspiciousObject\<close> returns (\<open>suspiciousnessScore\<close> repeats \<open>totalScore\<close>).\<close>

record SuspiciousnessData =
  totalScore :: int
  dataViolationType :: string
  dataSeverity :: Severity
  detectedCategory :: "string option"

text \<open>
  \<^verbatim>\<open>items.some(item => className.includes(item.toLowerCase()) ||
  item.toLowerCase().includes(className))\<close>
\<close>

definition inCategory :: "string \<Rightarrow> string list \<Rightarrow> bool" where
  "inCategory className its =
     list_ex (\<lambda>item. str_includes className (toLowerCase item)
                     \<or> str_includes (toLowerCase item) className) its"

text \<open>The loop over the categories, left at the first category that matches.\<close>

fun matchCategory :: "Category list \<Rightarrow> string \<Rightarrow> Category option" where
  "matchCategory [] className = None"
| "matchCategory (categoryData # rest) className =
     (if inCategory className (items categoryData) then Some categoryData
      else matchCategory rest className)"

definition analyzeObjectShape :: "jsnum \<Rightarrow> real \<Rightarrow> real \<Rightarrow> string option \<Rightarrow> int" where
  "analyzeObjectShape aspectRatio width height category =
     (if category = Some ''booksAndPapers'' then
        (if (js_ge aspectRatio 0.6 \<and> js_le aspectRatio 0.8)
            \<or> (js_ge aspectRatio 1.2 \<and> js_le aspectRatio 1.7) then 30 else 0)
      else if category = Some ''electronicDevices'' then
        analyzePhoneShape aspectRatio width height
      else
        (if js_ge aspectRatio 0.3 \<and> js_le aspectRatio 3.0 then 15 else 0))"

definition analyzeObjectSize :: "real \<Rightarrow> real \<Rightarrow> string option \<Rightarrow> int" where
  "analyzeObjectSize width height category =
     (let objectSize = max width height
      in if category = Some ''booksAndPapers'' then
           (if objectSize \<ge> 50 \<and> objectSize \<le> 300 then 25 else 0)
         else if category = Some ''electronicDevices'' then analyzePhoneSize width height
         else (if objectSize \<ge> 20 \<and> objectSize \<le> 200 then 15 else 0))"

definition emptyAnalysis :: SuspiciousnessData where
  "emptyAnalysis =
     \<lparr>totalScore = 0, dataViolationType = ''suspicious_item_detected'', dataSeverity = Medium,
      detectedCategory = None\<rparr>"

text \<open>
  \<^verbatim>\<open>analyzeSuspiciousObject\<close> once the categories are there, given the categories and the
  hands of the latest frame. \<open>totalScore\<close> is built up in the order of the source; the
  last step is the confidence boost.
\<close>

definition analyzeWithCategories ::
  "Category list \<Rightarrow> Hand list \<Rightarrow> Prediction \<Rightarrow> SuspiciousnessData" where
  "analyzeWithCategories categories hands prediction =
     (let className = (case cls prediction of None \<Rightarrow> [] | Some c \<Rightarrow> toLowerCase c)
      in if className = [] then emptyAnalysis
         else
           let matched = matchCategory categories className;
               total1 = (case matched of None \<Rightarrow> 0 | Some categoryData \<Rightarrow> baseScore categoryData);
               violationType1 = (case matched of None \<Rightarrow> ''suspicious_item_detected''
                                 | Some categoryData \<Rightarrow> violationType categoryData);
               severity1 = (case matched of None \<Rightarrow> Medium
                            | Some categoryData \<Rightarrow> categorySeverity categoryData);
               category1 = map_option categoryName matched;
               total2 =
                 (case extractBoundingBox prediction of
                    None \<Rightarrow> total1
                  | Some (x, y, width, height) \<Rightarrow>
                      if width > 0 \<and> height > 0 then
                        total1
                        + analyzeObjectShape (js_div width height) width height category1
                        + analyzeHandContext hands x y width height
                        + analyzeObjectSize width height category1
                      else total1);
               total3 =
                 (case score prediction of
                    None \<Rightarrow> total2
                  | Some sc \<Rightarrow>
                      if sc \<noteq> 0 \<and> sc < 0.6 \<and> total2 > 0
                      then total2 + round ((0.6 - sc) * 50)
                      else total2)
           in \<lparr>totalScore = total3, dataViolationType = violationType1,
               dataSeverity = severity1, detectedCategory = category1\<rparr>)"

definition initializeSuspiciousCategories :: "Engine \<Rightarrow> Engine" where
  "initializeSuspiciousCategories e =
     (case suspiciousItemsCategories e of
        None \<Rightarrow> e\<lparr>suspiciousItemsCategories := Some defaultCategories\<rparr>
      | Some categories \<Rightarrow> e)"

definition analyzeSuspiciousObject :: "Engine \<Rightarrow> Prediction \<Rightarrow> Engine \<times> SuspiciousnessData" where
  "analyzeSuspiciousObject e prediction =
     (let e1 = initializeSuspiciousCategories e
      in (e1, analyzeWithCategories
                (case suspiciousItemsCategories e1 of None \<Rightarrow> [] | Some categories \<Rightarrow> categories)
                (detectedHands e1) prediction))"







section \<open>The object-detection tick\<close>

definition commonSafeObjects :: "string list" where
  "commonSafeObjects = [''person'', ''chair'', ''desk'', ''wall'', ''window'', ''door'']"

text \<open>
  \<^verbatim>\<open>isKnownObject\<close>. \<^verbatim>\<open>Object.values(this.suspiciousItemsCategories)\<close> throws while the
  categories are not initialised.
\<close>

definition isKnownObject :: "Engine \<Rightarrow> string \<Rightarrow> error + bool" where
  "isKnownObject e className =
     (case suspiciousItemsCategories e of
        None \<Rightarrow> Inl TypeError
      | Some categories \<Rightarrow>
          Inr (inCategory className (concat (map items categories))
               \<or> className \<in> set commonSafeObjects))"

text \<open>
  \<^verbatim>\<open>otherDetections.filter(p => !this.isKnownObject(p.class.toLowerCase()) && p.score < 0.6)\<close>
\<close>

fun unknownObjectsOf :: "Engine \<Rightarrow> Prediction list \<Rightarrow> error + Prediction list" where
  "unknownObjectsOf e [] = Inr []"
| "unknownObjectsOf e (p # ps) =
     (case cls p of
        None \<Rightarrow> Inl TypeError
      | Some c \<Rightarrow>
          (case isKnownObject e (toLowerCase c) of
             Inl err \<Rightarrow> Inl err
           | Inr known \<Rightarrow>
               (case unknownObjectsOf e ps of
                  Inl err \<Rightarrow> Inl err
                | Inr others \<Rightarrow>
                    Inr (if \<not> known \<and> (case score p of None \<Rightarrow> False | Some v \<Rightarrow> v < 0.6)
                         then p # others else others))))"

definition personOnlyThreshold :: nat where "personOnlyThreshold = 8"
definition unknownObjectThreshold :: nat where "unknownObjectThreshold = 5"
definition violationCooldown :: int where "violationCooldown = 10000"

definition isPerson :: "Prediction \<Rightarrow> bool" where
  "isPerson p = (case cls p of None \<Rightarrow> False | Some c \<Rightarrow> toLowerCase c = ''person'')"

text \<open>
  \<^verbatim>\<open>checkMisclassifiedObjects\<close>. The two filters at its start lower-case every class, so
  a record without a class throws before any field is written. The quotation marks of
  the second message are left out.
\<close>

definition checkMisclassifiedObjects ::
  "Engine \<Rightarrow> Prediction list \<Rightarrow> int \<Rightarrow> Engine \<times> Violation list \<times> error option" where
  "checkMisclassifiedObjects e predictions currentTime =
     (if list_ex (\<lambda>p. cls p = None) predictions then (e, [], Some TypeError)
      else
        let personDetections = filter isPerson predictions;
            otherDetections = filter (\<lambda>p. \<not> isPerson p) predictions;
            (e1, vs1) =
              (if length personDetections > 0 \<and> length otherDetections = 0 then
                 (if list_ex (\<lambda>p. opt_ge (score p) 0.7) personDetections then
                    (let e0 = e\<lparr>personOnlyFrames := personOnlyFrames e + 1\<rparr>
                     in if personOnlyFrames e0 \<ge> personOnlyThreshold then
                          (if currentTime - lastViolationTime e0 \<ge> violationCooldown then
                             (e0\<lparr>lastViolationTime := currentTime, personOnlyFrames := 0\<rparr>,
                              [\<lparr>vtype = ''misclassified_object_detected'',
                                message = ''Person detected holding unidentified object for '',
                                severity = Medium\<rparr>])
                           else (e0, []))
                        else (e0, []))
                  else (e\<lparr>personOnlyFrames := personOnlyFrames e - 1\<rparr>, []))
               else (e\<lparr>personOnlyFrames := 0\<rparr>, []))
        in case unknownObjectsOf e1 otherDetections of
             Inl err \<Rightarrow> (e1, vs1, Some err)
           | Inr unknownObjects \<Rightarrow>
               if length unknownObjects > 0 then
                 (let e2 = e1\<lparr>unknownObjectFrames := unknownObjectFrames e1 + 1\<rparr>
                  in if unknownObjectFrames e2 \<ge> unknownObjectThreshold then
                       (e2\<lparr>unknownObjectFrames := 0\<rparr>,
                        vs1 @ [\<lparr>vtype = ''unknown_object_detected'',
                                message = ''Unknown object ''
                                  @ (case cls (hd unknownObjects) of None \<Rightarrow> ''undefined''
                                     | Some c \<Rightarrow> c) @ '' detected with '',
                                severity = Medium\<rparr>],
                        None)
                     else (e2, vs1, None))
               else (e1\<lparr>unknownObjectFrames := 0\<rparr>, vs1, None))"

text \<open>
  The \<^verbatim>\<open>forEach\<close> of \<^verbatim>\<open>checkOtherSuspiciousObjects\<close>, each record in its own
  \<^verbatim>\<open>try\<close>: a record that scores 70 or more is kept with its analysis.
\<close>

fun analyzeAll ::
  "Engine \<Rightarrow> Prediction list \<Rightarrow> Engine \<times> (Prediction \<times> SuspiciousnessData) list" where
  "analyzeAll e [] = (e, [])"
| "analyzeAll e (prediction # rest) =
     (case analyzeSuspiciousObject e prediction of
        (e1, suspiciousnessData) \<Rightarrow>
          (case analyzeAll e1 rest of
             (e2, others) \<Rightarrow>
               (e2, if totalScore suspiciousnessData \<ge> 70
                    then (prediction, suspiciousnessData) # others else others)))"

definition checkOtherSuspiciousObjects ::
  "Engine \<Rightarrow> Prediction list \<Rightarrow> int
     \<Rightarrow> Engine \<times> Violation list \<times> (Prediction \<times> SuspiciousnessData) list \<times> error option" where
  "checkOtherSuspiciousObjects e predictions currentTime =
     (if length predictions = 0 then (e, [], [], None)
      else
        (case checkMisclassifiedObjects e predictions currentTime of
           (e1, vs, Some err) \<Rightarrow> (e1, vs, [], Some err)
         | (e1, vs, None) \<Rightarrow>
             (case analyzeAll e1 predictions of
                (e2, suspiciousObjects) \<Rightarrow> (e2, vs, suspiciousObjects, None))))"

text \<open>\<^verbatim>\<open>String.prototype.replace('_', ' ')\<close>: the first underscore only.\<close>

fun replaceFirstUnderscore :: "string \<Rightarrow> string" where
  "replaceFirstUnderscore [] = []"
| "replaceFirstUnderscore (c # cs) =
     (if c = CHR ''_'' then CHR '' '' # cs else c # replaceFirstUnderscore cs)"

definition processOtherObjects :: "(Prediction \<times> SuspiciousnessData) list \<Rightarrow> Violation list" where
  "processOtherObjects suspiciousObjects =
     map (\<lambda>(prediction, suspiciousnessData).
            \<lparr>vtype = dataViolationType suspiciousnessData,
             message = replaceFirstUnderscore (dataViolationType suspiciousnessData) @ '': ''
               @ (case cls prediction of None \<Rightarrow> ''undefined'' | Some c \<Rightarrow> c)
               @ '' detected with '',
             severity = dataSeverity suspiciousnessData\<rparr>)
         suspiciousObjects"

text \<open>
  \<^verbatim>\<open>detectObjectsWithAI\<close> from the detector's result on: the five steps inside one
  \<^verbatim>\<open>try\<close>, whose \<^verbatim>\<open>catch\<close> only logs. An exception in a step skips the steps after
  it; what earlier steps wrote and emitted stays. The model and the video element are
  taken to be there.
\<close>

definition detectObjectsWithAI ::
  "Engine \<Rightarrow> Prediction list \<Rightarrow> int \<Rightarrow> Engine \<times> Violation list" where
  "detectObjectsWithAI e predictions currentTime =
     (case checkMobilePhoneDetections e predictions of
        Inl err \<Rightarrow> (e, [])
      | Inr (e1, mobileDetections) \<Rightarrow>
          (case processConsecutiveMobileDetections e1 mobileDetections currentTime of
             (e2, vs2, Some err) \<Rightarrow> (e2, vs2)
           | (e2, vs2, None) \<Rightarrow>
               (case checkOtherSuspiciousObjects e2 predictions currentTime of
                  (e3, vs3, categorizedObjects, Some err) \<Rightarrow> (e3, vs2 @ vs3)
                | (e3, vs3, categorizedObjects, None) \<Rightarrow>
                    (case updateObjectTracking (objectTracker e3) predictions currentTime of
                       (tr, vs5, err) \<Rightarrow>
                         (e3\<lparr>objectTracker := tr\<rparr>,
                          vs2 @ vs3 @ processOtherObjects categorizedObjects @ vs5)))))"


definition readyEngine :: Engine where
  "readyEngine = initialEngine\<lparr>suspiciousItemsCategories := Some defaultCategories\<rparr>"


text \<open>The records of the scenarios: a \<^verbatim>\<open>cell phone\<close> and a record without a class.\<close>

definition cellPhone :: "real \<Rightarrow> (real \<times> real \<times> real \<times> real) option \<Rightarrow> Prediction" where
  "cellPhone sc box = \<lparr>cls = Some ''cell phone'', score = Some sc, bbox = box, boundingBox = None\<rparr>"

definition noClass :: Prediction where
  "noClass = \<lparr>cls = None, score = Some 0.9, bbox = Some (300, 200, 80, 80), boundingBox = None\<rparr>"




section \<open>Properties of the tracker\<close>

lemma initial_tracker:
  "initialObjectTracker =
     \<lparr>trackedObjects = [(''mobile'', newTrackState), (''book'', newTrackState)],
      gracePeriod = [''mobile'' \<mapsto> 3, ''book'' \<mapsto> 4, ''default'' \<mapsto> 2],
      violationThresholds = [''mobile'' \<mapsto> 3, ''book'' \<mapsto> 4, ''default'' \<mapsto> 3]\<rparr>"
  by (simp add: initialObjectTracker_def initializeObjectTracking_def)

lemma remote_tracker:
  "remoteTracker =
     \<lparr>trackedObjects =
        [(''mobile'', newTrackState), (''book'', newTrackState), (''remote'', newTrackState)],
      gracePeriod = [''mobile'' \<mapsto> 3, ''book'' \<mapsto> 4, ''default'' \<mapsto> 2],
      violationThresholds = [''mobile'' \<mapsto> 3, ''book'' \<mapsto> 4, ''default'' \<mapsto> 3]\<rparr>"
  by (simp add: remoteTracker_def initial_tracker registerObjectType_def has_def truthy_def)

lemma find_cell_phone:
  "findObjectInPredictions
     [\<lparr>cls = Some ''cell phone'', score = s, bbox = b, boundingBox = bb\<rparr>] ''mobile''
   = Inr (Some \<lparr>cls = Some ''cell phone'', score = s, bbox = b, boundingBox = bb\<rparr>)"
  "findObjectInPredictions
     [\<lparr>cls = Some ''cell phone'', score = s, bbox = b, boundingBox = bb\<rparr>] ''book'' = Inr None"
  by (simp_all add: matchesAny_def getSearchTermsForObjectType_def toLowerCase_def toLowerChar_def)

lemma find_remote:
  "findObjectInPredictions
     [\<lparr>cls = Some ''remote'', score = s, bbox = b, boundingBox = bb\<rparr>] ''mobile'' = Inr None"
  "findObjectInPredictions
     [\<lparr>cls = Some ''remote'', score = s, bbox = b, boundingBox = bb\<rparr>] ''book'' = Inr None"
  "findObjectInPredictions
     [\<lparr>cls = Some ''remote'', score = s, bbox = b, boundingBox = bb\<rparr>] ''remote''
   = Inr (Some \<lparr>cls = Some ''remote'', score = s, bbox = b, boundingBox = bb\<rparr>)"
  by (simp_all add: matchesAny_def getSearchTermsForObjectType_def toLowerCase_def toLowerChar_def)

lemmas tracker_step_defs =
  updateObjectTracking_def trackObject_def handleObjectDetected_def handleObjectMissed_def
  checkObjectViolation_def paramFor_def newTrackState_def
  thresholds_high_def thresholds_medium_def thresholds_low_def

lemma checkObjectViolation_eq:
  assumes "paramFor (violationThresholds tr) objectType = Some threshold"
  shows "checkObjectViolation tr objectType state =
     (if consecutiveDetections state \<ge> threshold \<and> confidence state \<ge> 0.5
      then (state\<lparr>consecutiveDetections := threshold div 2\<rparr>,
            [\<lparr>vtype = objectType @ ''_detected_stateful'',
              message = objectType @ '' consistently detected over '',
              severity = (if confidence state \<ge> 0.8 \<or> consecutiveDetections state \<ge> threshold + 2
                          then High else Medium)\<rparr>])
      else (state, []))"
  using assms by (simp add: checkObjectViolation_def thresholds_medium_def thresholds_high_def)

lemma violation_thresholds_initial:
  "paramFor (violationThresholds initialObjectTracker) ''mobile'' = Some 3"
  "paramFor (violationThresholds initialObjectTracker) ''book'' = Some 4"
  "t \<noteq> ''mobile'' \<Longrightarrow> t \<noteq> ''book'' \<Longrightarrow>
     paramFor (violationThresholds initialObjectTracker) t = Some 3"
  by (simp_all add: initial_tracker paramFor_def)

lemma three_medium_then_one_more:
  assumes "0.5 \<le> s1" "s1 < 0.8" "0.5 \<le> s2" "s2 < 0.8" "0.5 \<le> s3" "s3 < 0.8"
  shows "snd (runTracking initialObjectTracker
           [([\<lparr>cls = Some ''cell phone'', score = Some s1, bbox = b1, boundingBox = None\<rparr>], t1),
            ([\<lparr>cls = Some ''cell phone'', score = Some s2, bbox = b2, boundingBox = None\<rparr>], t2),
            ([\<lparr>cls = Some ''cell phone'', score = Some s3, bbox = b3, boundingBox = None\<rparr>], t3),
            ([\<lparr>cls = Some ''cell phone'', score = s4, bbox = b4, boundingBox = None\<rparr>], t4)])
         = [\<lparr>vtype = ''mobile_detected_stateful'',
             message = ''mobile consistently detected over '', severity = Medium\<rparr>]"
  using assms
  by (auto simp add: initial_tracker tracker_step_defs find_cell_phone
       simp del: findObjectInPredictions.simps(2) split: option.splits)

text \<open>
  Claim C1. \<^verbatim>\<open>checkObjectViolation\<close>, for a type whose violation threshold is \<open>threshold\<close>:
  when \<open>consecutiveDetections\<close> has reached the threshold and the stored confidence is at
  least the medium tier 0.5, exactly one violation is emitted, of severity high if the
  confidence is at least the high tier 0.8 or the count is at least threshold + 2 and medium
  otherwise, and \<open>consecutiveDetections\<close> becomes \<open>threshold div 2\<close>; otherwise nothing is
  emitted and the state is kept. The thresholds are 3 for mobile, 4 for book and 3 by
  default. Hence, from the initial tracker, three ticks with a medium-confidence
  \<^verbatim>\<open>cell phone\<close> followed by a fourth tick that again shows a \<^verbatim>\<open>cell phone\<close> (of any score)
  emit exactly one tracker violation for mobile over the four ticks.
\<close>

theorem checkObjectViolation_partial_reset:
  "(paramFor (violationThresholds tr) objectType = Some threshold \<longrightarrow>
      checkObjectViolation tr objectType state =
        (if consecutiveDetections state \<ge> threshold \<and> confidence state \<ge> 0.5
         then (state\<lparr>consecutiveDetections := threshold div 2\<rparr>,
               [\<lparr>vtype = objectType @ ''_detected_stateful'',
                 message = objectType @ '' consistently detected over '',
                 severity = (if confidence state \<ge> 0.8
                                \<or> consecutiveDetections state \<ge> threshold + 2
                             then High else Medium)\<rparr>])
         else (state, [])))
   \<and> paramFor (violationThresholds initialObjectTracker) ''mobile'' = Some 3
   \<and> paramFor (violationThresholds initialObjectTracker) ''book'' = Some 4
   \<and> (t \<noteq> ''mobile'' \<and> t \<noteq> ''book'' \<longrightarrow>
        paramFor (violationThresholds initialObjectTracker) t = Some 3)
   \<and> (0.5 \<le> s1 \<and> s1 < 0.8 \<and> 0.5 \<le> s2 \<and> s2 < 0.8 \<and> 0.5 \<le> s3 \<and> s3 < 0.8 \<longrightarrow>
        snd (runTracking initialObjectTracker
          [([\<lparr>cls = Some ''cell phone'', score = Some s1, bbox = b1, boundingBox = None\<rparr>], t1),
           ([\<lparr>cls = Some ''cell phone'', score = Some s2, bbox = b2, boundingBox = None\<rparr>], t2),
           ([\<lparr>cls = Some ''cell phone'', score = Some s3, bbox = b3, boundingBox = None\<rparr>], t3),
           ([\<lparr>cls = Some ''cell phone'', score = s4, bbox = b4, boundingBox = None\<rparr>], t4)])
        = [\<lparr>vtype = ''mobile_detected_stateful'',
            message = ''mobile consistently detected over '', severity = Medium\<rparr>])"
  by (intro conjI impI; (elim conjE)?;
      (rule checkObjectViolation_eq violation_thresholds_initial three_medium_then_one_more;
       assumption))

text \<open>
  Witness for C1: the mobile state after a third detection of confidence 0.65 fires one
  medium violation and drops to count 1, and four ticks of \<^verbatim>\<open>cell phone\<close> at 0.65 emit
  one violation.
\<close>

theorem checkObjectViolation_partial_reset_witness:
  "checkObjectViolation initialObjectTracker ''mobile''
     \<lparr>consecutiveDetections = 3, missedFrames = 0, lastDetectionTime = Some 9000,
      confidence = 0.65\<rparr>
   = (\<lparr>consecutiveDetections = 1, missedFrames = 0, lastDetectionTime = Some 9000,
       confidence = 0.65\<rparr>,
      [\<lparr>vtype = ''mobile_detected_stateful'',
        message = ''mobile consistently detected over '', severity = Medium\<rparr>])
   \<and> snd (runTracking initialObjectTracker
          [([\<lparr>cls = Some ''cell phone'', score = Some 0.65, bbox = None, boundingBox = None\<rparr>], 3000),
           ([\<lparr>cls = Some ''cell phone'', score = Some 0.65, bbox = None, boundingBox = None\<rparr>], 6000),
           ([\<lparr>cls = Some ''cell phone'', score = Some 0.65, bbox = None, boundingBox = None\<rparr>], 9000),
           ([\<lparr>cls = Some ''cell phone'', score = Some 0.65, bbox = None, boundingBox = None\<rparr>], 12000)])
      = [\<lparr>vtype = ''mobile_detected_stateful'',
          message = ''mobile consistently detected over '', severity = Medium\<rparr>]"
  using checkObjectViolation_partial_reset
    [where tr = initialObjectTracker and objectType = "''mobile''" and threshold = 3
       and state = "\<lparr>consecutiveDetections = 3, missedFrames = 0, lastDetectionTime = Some 9000,
                      confidence = 0.65\<rparr>"
       and ?s1.0 = "0.65" and ?s2.0 = "0.65" and ?s3.0 = "0.65" and ?s4.0 = "Some 0.65"
       and ?b1.0 = None and ?b2.0 = None and ?b3.0 = None and ?b4.0 = None
       and ?t1.0 = 3000 and ?t2.0 = 6000 and ?t3.0 = 9000 and ?t4.0 = 12000 and t = "''remote''"]
  by simp

lemma handleObjectDetected_low:
  "score d = Some s \<Longrightarrow> 0.2 \<le> s \<Longrightarrow> s < 0.5 \<Longrightarrow>
   handleObjectDetected t d now st =
     st\<lparr>missedFrames := 0, confidence := s, lastDetectionTime := Some now\<rparr>"
  by (simp add: handleObjectDetected_def thresholds_high_def thresholds_medium_def
      thresholds_low_def)

lemma handleObjectDetected_below_low:
  "score d = Some s \<Longrightarrow> s < 0.2 \<Longrightarrow> handleObjectDetected t d now st = st"
  by (simp add: handleObjectDetected_def thresholds_high_def thresholds_medium_def
      thresholds_low_def)

lemma handleObjectDetected_counting:
  "score d = Some s \<Longrightarrow> 0.5 \<le> s \<Longrightarrow>
   handleObjectDetected t d now st =
     st\<lparr>consecutiveDetections := consecutiveDetections st + 1, missedFrames := 0,
        confidence := s, lastDetectionTime := Some now\<rparr>"
  by (simp add: handleObjectDetected_def thresholds_high_def thresholds_medium_def
      thresholds_low_def)

lemma trackObject_below_low:
  "findObjectInPredictions predictions t = Inr (Some d) \<Longrightarrow> score d = Some s \<Longrightarrow> s < 0.2 \<Longrightarrow>
   trackObject tr predictions now t st = Inr (checkObjectViolation tr t st)"
  by (simp add: trackObject_def handleObjectDetected_below_low)

text \<open>
  Claim C2, as amended. On a tick where a matching detection \<open>d\<close> is found:
  a score in the low tier (at least 0.2, below 0.5) sets \<open>missedFrames\<close> to 0 and leaves
  \<open>consecutiveDetections\<close> unchanged; a score of at least 0.5 (medium or high tier)
  increments \<open>consecutiveDetections\<close> and sets \<open>missedFrames\<close> to 0; a score below 0.2 is
  ignored: the handler returns the state as it was, so \<open>missedFrames\<close> is not incremented
  and the tick only runs the violation check on the unchanged state. It is not handled as
  a tick on which the type is absent.
\<close>

theorem handleObjectDetected_tiers:
  "(score d = Some s \<and> 0.2 \<le> s \<and> s < 0.5 \<longrightarrow>
      missedFrames (handleObjectDetected t d now st) = 0
      \<and> consecutiveDetections (handleObjectDetected t d now st) = consecutiveDetections st)
   \<and> (score d = Some s \<and> 0.5 \<le> s \<longrightarrow>
      missedFrames (handleObjectDetected t d now st) = 0
      \<and> consecutiveDetections (handleObjectDetected t d now st) = consecutiveDetections st + 1)
   \<and> (score d = Some s \<and> s < 0.2 \<longrightarrow>
      handleObjectDetected t d now st = st
      \<and> (findObjectInPredictions predictions t = Inr (Some d) \<longrightarrow>
           trackObject tr predictions now t st = Inr (checkObjectViolation tr t st)))"
  by (auto simp add: handleObjectDetected_low handleObjectDetected_counting
      handleObjectDetected_below_low trackObject_below_low)

text \<open>
  Witness for C2 (amended): the three tiers on a mobile state with two detections and
  one miss, at scores 0.3, 0.65 and 0.1.
\<close>

theorem handleObjectDetected_tiers_witness:
  "handleObjectDetected ''mobile''
     \<lparr>cls = Some ''cell phone'', score = Some 0.3, bbox = None, boundingBox = None\<rparr> 7000
     \<lparr>consecutiveDetections = 2, missedFrames = 1, lastDetectionTime = Some 1000, confidence = 0.6\<rparr>
   = \<lparr>consecutiveDetections = 2, missedFrames = 0, lastDetectionTime = Some 7000, confidence = 0.3\<rparr>
   \<and> handleObjectDetected ''mobile''
     \<lparr>cls = Some ''cell phone'', score = Some 0.1, bbox = None, boundingBox = None\<rparr> 7000
     \<lparr>consecutiveDetections = 2, missedFrames = 1, lastDetectionTime = Some 1000, confidence = 0.6\<rparr>
   = \<lparr>consecutiveDetections = 2, missedFrames = 1, lastDetectionTime = Some 1000, confidence = 0.6\<rparr>
   \<and> trackObject initialObjectTracker
        [\<lparr>cls = Some ''cell phone'', score = Some 0.1, bbox = None, boundingBox = None\<rparr>] 7000
        ''mobile''
        \<lparr>consecutiveDetections = 2, missedFrames = 1, lastDetectionTime = Some 1000, confidence = 0.6\<rparr>
   = Inr (\<lparr>consecutiveDetections = 2, missedFrames = 1, lastDetectionTime = Some 1000,
            confidence = 0.6\<rparr>, [])"
  using handleObjectDetected_tiers
    [where d = "\<lparr>cls = Some ''cell phone'', score = Some 0.3, bbox = None, boundingBox = None\<rparr>"
       and s = "0.3" and t = "''mobile''" and now = 7000
       and st = "\<lparr>consecutiveDetections = 2, missedFrames = 1, lastDetectionTime = Some 1000,
                    confidence = 0.6\<rparr>"]
    handleObjectDetected_tiers
    [where d = "\<lparr>cls = Some ''cell phone'', score = Some 0.1, bbox = None, boundingBox = None\<rparr>"
       and s = "0.1" and t = "''mobile''" and now = 7000 and tr = initialObjectTracker
       and predictions =
         "[\<lparr>cls = Some ''cell phone'', score = Some 0.1, bbox = None, boundingBox = None\<rparr>]"
       and st = "\<lparr>consecutiveDetections = 2, missedFrames = 1, lastDetectionTime = Some 1000,
                    confidence = 0.6\<rparr>"]
  by (simp add: find_cell_phone handleObjectDetected_def checkObjectViolation_def paramFor_def
      initial_tracker thresholds_high_def thresholds_medium_def thresholds_low_def
      del: findObjectInPredictions.simps(2))

text \<open>
  Counterexample to C2 as stated (a detection below the low tier is "treated as absent for
  this tick"): the mobile state after two detections and three misses, mobile grace period 3.
  A tick with a \<^verbatim>\<open>cell phone\<close> of score 0.1 leaves the state as it is; a tick on which the
  type is absent counts a fourth miss and resets the count and the confidence.
\<close>

theorem below_low_not_treated_as_absent:
  "trackObject initialObjectTracker
      [\<lparr>cls = Some ''cell phone'', score = Some 0.1, bbox = None, boundingBox = None\<rparr>] 5000
      ''mobile''
      \<lparr>consecutiveDetections = 2, missedFrames = 3, lastDetectionTime = Some 1000, confidence = 0.6\<rparr>
    = Inr (\<lparr>consecutiveDetections = 2, missedFrames = 3, lastDetectionTime = Some 1000,
             confidence = 0.6\<rparr>, [])
   \<and> trackObject initialObjectTracker [] 5000 ''mobile''
      \<lparr>consecutiveDetections = 2, missedFrames = 3, lastDetectionTime = Some 1000, confidence = 0.6\<rparr>
    = Inr (\<lparr>consecutiveDetections = 0, missedFrames = 4, lastDetectionTime = Some 1000,
             confidence = 0\<rparr>, [])"
  by (simp add: initial_tracker find_cell_phone tracker_step_defs
      del: findObjectInPredictions.simps(2))

lemma handleObjectMissed_eq:
  "paramFor (gracePeriod tr) t = Some g \<Longrightarrow>
   handleObjectMissed tr t now st =
     (if missedFrames st + 1 > g
      then st\<lparr>missedFrames := missedFrames st + 1, consecutiveDetections := 0, confidence := 0\<rparr>
      else st\<lparr>missedFrames := missedFrames st + 1\<rparr>)"
  by (simp add: handleObjectMissed_def)

lemma grace_period_initial:
  "paramFor (gracePeriod initialObjectTracker) ''mobile'' = Some 3"
  "paramFor (gracePeriod initialObjectTracker) ''book'' = Some 4"
  "t \<noteq> ''mobile'' \<Longrightarrow> t \<noteq> ''book'' \<Longrightarrow> paramFor (gracePeriod initialObjectTracker) t = Some 2"
  by (simp_all add: initial_tracker paramFor_def)

lemma one_miss_resumes:
  assumes "0.5 \<le> s1" "0.5 \<le> s2"
  shows "map_option consecutiveDetections (map_of (trackedObjects (fst (runTracking remoteTracker
           [([\<lparr>cls = Some ''remote'', score = Some s1, bbox = None, boundingBox = None\<rparr>], t1),
            ([], t2),
            ([\<lparr>cls = Some ''remote'', score = Some s2, bbox = None, boundingBox = None\<rparr>], t3)])))
           ''remote'')
         = Some 2"
  using assms
  by (simp add: remote_tracker find_remote tracker_step_defs
      del: findObjectInPredictions.simps(2))

lemma two_misses_keep:
  assumes "0.5 \<le> s1"
  shows "map_option consecutiveDetections (map_of (trackedObjects (fst (runTracking remoteTracker
           [([\<lparr>cls = Some ''remote'', score = Some s1, bbox = None, boundingBox = None\<rparr>], t1),
            ([], t2), ([], t3)]))) ''remote'') = Some 1"
  using assms
  by (simp add: remote_tracker find_remote tracker_step_defs
      del: findObjectInPredictions.simps(2))

lemma three_misses_reset:
  assumes "0.5 \<le> s1"
  shows "map_option consecutiveDetections (map_of (trackedObjects (fst (runTracking remoteTracker
           [([\<lparr>cls = Some ''remote'', score = Some s1, bbox = None, boundingBox = None\<rparr>], t1),
            ([], t2), ([], t3), ([], t4)]))) ''remote'') = Some 0"
  using assms
  by (simp add: remote_tracker find_remote tracker_step_defs
      del: findObjectInPredictions.simps(2))

text \<open>
  Claim C3. \<^verbatim>\<open>handleObjectMissed\<close>, for a type whose grace period is \<open>g\<close>: \<open>missedFrames\<close>
  is incremented, and \<open>consecutiveDetections\<close> and \<open>confidence\<close> are reset to 0 exactly when
  the incremented \<open>missedFrames\<close> exceeds \<open>g\<close>. The grace periods are 3 for mobile, 4 for
  book and 2 by default. For the type \<^verbatim>\<open>remote\<close>, which uses the default 2: a
  detection, one miss and a detection give count 2 (the count resumes); a detection and two
  misses keep count 1; a detection and three misses give count 0.
\<close>

theorem handleObjectMissed_grace_period:
  "(paramFor (gracePeriod tr) t = Some g \<longrightarrow>
      handleObjectMissed tr t now st =
        (if missedFrames st + 1 > g
         then st\<lparr>missedFrames := missedFrames st + 1, consecutiveDetections := 0, confidence := 0\<rparr>
         else st\<lparr>missedFrames := missedFrames st + 1\<rparr>))
   \<and> paramFor (gracePeriod initialObjectTracker) ''mobile'' = Some 3
   \<and> paramFor (gracePeriod initialObjectTracker) ''book'' = Some 4
   \<and> (u \<noteq> ''mobile'' \<and> u \<noteq> ''book'' \<longrightarrow> paramFor (gracePeriod initialObjectTracker) u = Some 2)
   \<and> (0.5 \<le> s1 \<and> 0.5 \<le> s2 \<longrightarrow>
        map_option consecutiveDetections (map_of (trackedObjects (fst (runTracking remoteTracker
           [([\<lparr>cls = Some ''remote'', score = Some s1, bbox = None, boundingBox = None\<rparr>], t1),
            ([], t2),
            ([\<lparr>cls = Some ''remote'', score = Some s2, bbox = None, boundingBox = None\<rparr>], t3)])))
           ''remote'') = Some 2
        \<and> map_option consecutiveDetections (map_of (trackedObjects (fst (runTracking remoteTracker
           [([\<lparr>cls = Some ''remote'', score = Some s1, bbox = None, boundingBox = None\<rparr>], t1),
            ([], t2), ([], t3)]))) ''remote'') = Some 1
        \<and> map_option consecutiveDetections (map_of (trackedObjects (fst (runTracking remoteTracker
           [([\<lparr>cls = Some ''remote'', score = Some s1, bbox = None, boundingBox = None\<rparr>], t1),
            ([], t2), ([], t3), ([], t4)]))) ''remote'') = Some 0)"
  by (intro conjI impI; (elim conjE)?;
      (rule handleObjectMissed_eq grace_period_initial one_miss_resumes two_misses_keep
         three_misses_reset; assumption))

text \<open>
  Witness for C3: the mobile state with three misses takes its fourth miss (grace period 3)
  and is reset; the \<^verbatim>\<open>remote\<close> scenarios at score 0.6.
\<close>

theorem handleObjectMissed_grace_period_witness:
  "handleObjectMissed initialObjectTracker ''mobile'' 5000
     \<lparr>consecutiveDetections = 2, missedFrames = 3, lastDetectionTime = Some 1000, confidence = 0.6\<rparr>
   = \<lparr>consecutiveDetections = 0, missedFrames = 4, lastDetectionTime = Some 1000, confidence = 0\<rparr>
   \<and> paramFor (gracePeriod initialObjectTracker) ''remote'' = Some 2
   \<and> map_option consecutiveDetections (map_of (trackedObjects (fst (runTracking remoteTracker
        [([\<lparr>cls = Some ''remote'', score = Some 0.6, bbox = None, boundingBox = None\<rparr>], 3000),
         ([], 6000),
         ([\<lparr>cls = Some ''remote'', score = Some 0.6, bbox = None, boundingBox = None\<rparr>], 9000)])))
        ''remote'') = Some 2
   \<and> map_option consecutiveDetections (map_of (trackedObjects (fst (runTracking remoteTracker
        [([\<lparr>cls = Some ''remote'', score = Some 0.6, bbox = None, boundingBox = None\<rparr>], 3000),
         ([], 6000), ([], 9000), ([], 12000)]))) ''remote'') = Some 0"
  using handleObjectMissed_grace_period
    [where tr = initialObjectTracker and t = "''mobile''" and g = 3 and now = 5000
       and st = "\<lparr>consecutiveDetections = 2, missedFrames = 3, lastDetectionTime = Some 1000,
                    confidence = 0.6\<rparr>"
       and u = "''remote''" and ?s1.0 = "0.6" and ?s2.0 = "0.6"
       and ?t1.0 = 3000 and ?t2.0 = 6000 and ?t3.0 = 9000 and ?t4.0 = 12000]
  by simp

lemma registerObjectType_tracked:
  "has (trackedObjects tr) objectType \<Longrightarrow> registerObjectType tr objectType options = tr"
  by (simp add: registerObjectType_def)

lemma registerObjectType_new:
  assumes "\<not> has (trackedObjects tr) objectType"
  shows "map_of (trackedObjects (registerObjectType tr objectType options)) objectType
           = Some newTrackState"
    and "gracePeriod (registerObjectType tr objectType options) objectType
           = (if truthy (opt_gracePeriod options) then opt_gracePeriod options
              else gracePeriod tr objectType)"
    and "violationThresholds (registerObjectType tr objectType options) objectType
           = (if truthy (opt_violationThreshold options) then opt_violationThreshold options
              else violationThresholds tr objectType)"
  using assms by (simp_all add: registerObjectType_def Let_def update_Some_unfold)

text \<open>
  Claim C9. \<^verbatim>\<open>registerObjectType\<close> for a type that is already tracked returns the tracker
  as it was: the type's state (\<open>consecutiveDetections\<close>, \<open>missedFrames\<close>, \<open>lastDetectionTime\<close>,
  \<open>confidence\<close>) and the grace-period and threshold tables are unchanged, whatever the options
  say. \<^verbatim>\<open>mobile\<close> and \<^verbatim>\<open>book\<close> are tracked from the start. For a type not yet tracked, a
  fresh state is added and each override that is given (and not zero) is stored.
\<close>

theorem registerObjectType_already_tracked:
  "(has (trackedObjects tr) objectType \<longrightarrow> registerObjectType tr objectType options = tr)
   \<and> has (trackedObjects initialObjectTracker) ''mobile''
   \<and> has (trackedObjects initialObjectTracker) ''book''
   \<and> (\<not> has (trackedObjects tr) objectType \<longrightarrow>
        map_of (trackedObjects (registerObjectType tr objectType options)) objectType
          = Some newTrackState
        \<and> gracePeriod (registerObjectType tr objectType options) objectType
          = (if truthy (opt_gracePeriod options) then opt_gracePeriod options
             else gracePeriod tr objectType)
        \<and> violationThresholds (registerObjectType tr objectType options) objectType
          = (if truthy (opt_violationThreshold options) then opt_violationThreshold options
             else violationThresholds tr objectType))"
  by (simp add: registerObjectType_tracked registerObjectType_new initial_tracker has_def)

text \<open>
  Witness for C9: registering \<^verbatim>\<open>mobile\<close> again with grace period 10 and threshold 1 changes
  nothing, after the mobile state has counted two detections; the mobile grace period is
  still 3.
\<close>

theorem registerObjectType_already_tracked_witness:
  "registerObjectType
     (initialObjectTracker\<lparr>trackedObjects :=
        [(''mobile'', \<lparr>consecutiveDetections = 2, missedFrames = 0,
                       lastDetectionTime = Some 6000, confidence = 0.65\<rparr>),
         (''book'', newTrackState)]\<rparr>)
     ''mobile'' \<lparr>opt_gracePeriod = Some 10, opt_violationThreshold = Some 1\<rparr>
   = initialObjectTracker\<lparr>trackedObjects :=
        [(''mobile'', \<lparr>consecutiveDetections = 2, missedFrames = 0,
                       lastDetectionTime = Some 6000, confidence = 0.65\<rparr>),
         (''book'', newTrackState)]\<rparr>"
  using registerObjectType_already_tracked
    [where tr = "initialObjectTracker\<lparr>trackedObjects :=
        [(''mobile'', \<lparr>consecutiveDetections = 2, missedFrames = 0,
                       lastDetectionTime = Some 6000, confidence = 0.65\<rparr>),
         (''book'', newTrackState)]\<rparr>"
       and objectType = "''mobile''"
       and options = "\<lparr>opt_gracePeriod = Some 10, opt_violationThreshold = Some 1\<rparr>"]
  by (simp add: has_def)

section \<open>Properties of the focus state machine\<close>

lemmas focus_defs =
  processFocusDetection_def handleNoFaceDetection_def handleSingleFaceDetection_def
  handleLookingAwayDetection_def resetNoFaceTimer_def resetLookingAwayTimer_def
  hideFocusWarning_def

lemma handleNoFaceDetection_flags:
  "isCurrentlyNoFace (fst (handleNoFaceDetection s now))"
  "\<not> isCurrentlyLookingAway (fst (handleNoFaceDetection s now))"
  by (simp_all add: handleNoFaceDetection_def resetLookingAwayTimer_def hideFocusWarning_def
      Let_def split: prod.splits)

lemma handleSingleFaceDetection_noFace:
  "\<not> isCurrentlyNoFace (fst (handleSingleFaceDetection s face now))"
  by (simp add: handleSingleFaceDetection_def handleLookingAwayDetection_def
      resetNoFaceTimer_def resetLookingAwayTimer_def hideFocusWarning_def
      Let_def split: prod.splits)

lemma multiple_faces_flags:
  "\<not> isCurrentlyNoFace (hideFocusWarning (resetLookingAwayTimer (resetNoFaceTimer s)))"
  "\<not> isCurrentlyLookingAway (hideFocusWarning (resetLookingAwayTimer (resetNoFaceTimer s)))"
  by (simp_all add: resetNoFaceTimer_def resetLookingAwayTimer_def hideFocusWarning_def)

lemma flags_exclusive:
  "\<not> (isCurrentlyNoFace (fst (processFocusDetection s faces now))
      \<and> isCurrentlyLookingAway (fst (processFocusDetection s faces now)))"
  by (simp add: processFocusDetection_def handleNoFaceDetection_flags
      handleSingleFaceDetection_noFace multiple_faces_flags)

lemma lookingAway_entered_on_single_face:
  "isCurrentlyLookingAway (fst (processFocusDetection s faces now)) \<Longrightarrow>
   \<not> isCurrentlyLookingAway s \<Longrightarrow> length faces = 1"
  by (cases "length faces > 1"; cases "length faces = 0";
      simp add: processFocusDetection_def handleNoFaceDetection_flags multiple_faces_flags;
      cases faces; simp)

lemma single_face_resets_noFace:
  "length faces = 1 \<Longrightarrow>
   \<not> isCurrentlyNoFace (fst (processFocusDetection s faces now))
   \<and> noFaceStartTime (fst (processFocusDetection s faces now))
       = (if isCurrentlyNoFace s then None else noFaceStartTime s)"
  by (simp add: processFocusDetection_def handleSingleFaceDetection_def
      handleLookingAwayDetection_def resetNoFaceTimer_def resetLookingAwayTimer_def
      hideFocusWarning_def Let_def split: prod.splits)

lemma no_face_resets_lookingAway:
  "length faces = 0 \<Longrightarrow>
   isCurrentlyNoFace (fst (processFocusDetection s faces now))
   \<and> \<not> isCurrentlyLookingAway (fst (processFocusDetection s faces now))
   \<and> lookingAwayStartTime (fst (processFocusDetection s faces now))
       = (if isCurrentlyLookingAway s then None else lookingAwayStartTime s)"
  by (simp add: processFocusDetection_def handleNoFaceDetection_def
      resetLookingAwayTimer_def hideFocusWarning_def Let_def split: prod.splits)

text \<open>
  Claim C7. After a focus tick on any face list, from any state, \<open>isCurrentlyNoFace\<close> and
  \<open>isCurrentlyLookingAway\<close> are not both set. A tick with no face sets the no-face flag
  and clears the looking-away flag, and the looking-away timer if that flag was set. The
  looking-away flag becomes set only on a tick with exactly one face, and such a tick clears
  the no-face flag, and the no-face timer if that flag was set.
\<close>

theorem focus_flags_mutually_exclusive:
  "\<not> (isCurrentlyNoFace (fst (processFocusDetection s faces now))
      \<and> isCurrentlyLookingAway (fst (processFocusDetection s faces now)))
   \<and> (length faces = 0 \<longrightarrow>
        isCurrentlyNoFace (fst (processFocusDetection s faces now))
        \<and> \<not> isCurrentlyLookingAway (fst (processFocusDetection s faces now))
        \<and> lookingAwayStartTime (fst (processFocusDetection s faces now))
            = (if isCurrentlyLookingAway s then None else lookingAwayStartTime s))
   \<and> (isCurrentlyLookingAway (fst (processFocusDetection s faces now))
        \<and> \<not> isCurrentlyLookingAway s \<longrightarrow> length faces = 1)
   \<and> (length faces = 1 \<longrightarrow>
        \<not> isCurrentlyNoFace (fst (processFocusDetection s faces now))
        \<and> noFaceStartTime (fst (processFocusDetection s faces now))
            = (if isCurrentlyNoFace s then None else noFaceStartTime s))"
  using flags_exclusive [of s faces now] lookingAway_entered_on_single_face [of s faces now]
    single_face_resets_noFace [of faces s now] no_face_resets_lookingAway [of faces s now]
  by blast

text \<open>
  Witness for C7: the candidate has been looking away since time 1000 and then leaves the
  frame at time 4000; the tick sets the no-face flag and clears the looking-away flag and
  timer.
\<close>

theorem focus_flags_mutually_exclusive_witness:
  "isCurrentlyNoFace (fst (processFocusDetection
      \<lparr>lookingAwayStartTime = Some 1000, noFaceStartTime = None,
       isCurrentlyLookingAway = True, isCurrentlyNoFace = False,
       showFocusWarning = False, focusWarningType = None, lastFaceDetection = 2000\<rparr> [] 4000))
   \<and> \<not> isCurrentlyLookingAway (fst (processFocusDetection
      \<lparr>lookingAwayStartTime = Some 1000, noFaceStartTime = None,
       isCurrentlyLookingAway = True, isCurrentlyNoFace = False,
       showFocusWarning = False, focusWarningType = None, lastFaceDetection = 2000\<rparr> [] 4000))
   \<and> lookingAwayStartTime (fst (processFocusDetection
      \<lparr>lookingAwayStartTime = Some 1000, noFaceStartTime = None,
       isCurrentlyLookingAway = True, isCurrentlyNoFace = False,
       showFocusWarning = False, focusWarningType = None, lastFaceDetection = 2000\<rparr> [] 4000))
     = None"
  using focus_flags_mutually_exclusive
    [where s = "\<lparr>lookingAwayStartTime = Some 1000, noFaceStartTime = None,
                  isCurrentlyLookingAway = True, isCurrentlyNoFace = False,
                  showFocusWarning = False, focusWarningType = None, lastFaceDetection = 2000\<rparr>"
       and faces = "[]" and now = 4000]
  by simp

lemma focusInvariant_step:
  "focusInvariant s \<Longrightarrow> focusInvariant (fst (processFocusDetection s faces now))"
  unfolding focusInvariant_def
  by (cases "length faces > 1"; cases "length faces = 0";
      simp add: focus_defs Let_def split: prod.splits)

lemma fst_runFocus_Cons:
  "fst (runFocus s ((faces, now) # ticks))
     = fst (runFocus (fst (processFocusDetection s faces now)) ticks)"
  by (simp split: prod.splits)

lemma focusInvariant_run:
  "focusInvariant s \<Longrightarrow> focusInvariant (fst (runFocus s ticks))"
proof (induction ticks arbitrary: s)
  case Nil
  then show ?case by simp
next
  case (Cons tick ticks)
  obtain faces now where tick: "tick = (faces, now)" by (cases tick)
  from Cons.prems have "focusInvariant (fst (processFocusDetection s faces now))"
    by (rule focusInvariant_step)
  then have "focusInvariant (fst (runFocus (fst (processFocusDetection s faces now)) ticks))"
    by (rule Cons.IH)
  then show ?case by (simp only: tick fst_runFocus_Cons)
qed

lemma focusInvariant_reached:
  "focusInvariant (fst (runFocus (initialFocusState t0) ticks))"
  by (rule focusInvariant_run) (simp add: focusInvariant_def initialFocusState_def)

lemma no_face_first_tick:
  "\<not> isCurrentlyNoFace s \<Longrightarrow>
   snd (processFocusDetection s [] now) = []
   \<and> isCurrentlyNoFace (fst (processFocusDetection s [] now))
   \<and> noFaceStartTime (fst (processFocusDetection s [] now)) = Some now"
  by (simp add: processFocusDetection_def handleNoFaceDetection_def resetLookingAwayTimer_def
      hideFocusWarning_def)

lemma no_face_later_tick:
  "isCurrentlyNoFace s \<Longrightarrow> \<not> isCurrentlyLookingAway s \<Longrightarrow> noFaceStartTime s = Some start \<Longrightarrow>
   processFocusDetection s [] now =
     (if now - start \<ge> 10000
      then (s\<lparr>showFocusWarning := True, focusWarningType := Some ''no_face'',
              noFaceStartTime := Some now\<rparr>,
            [\<lparr>vtype = ''no_face'', message = ''No face detected for '', severity = High\<rparr>])
      else (s, []))"
  by (simp add: processFocusDetection_def handleNoFaceDetection_def resetLookingAwayTimer_def
      elapsedSince_def noFaceThreshold_def)

lemma no_face_later_tick_reached:
  assumes "s = fst (runFocus (initialFocusState t0) ticks)" and "isCurrentlyNoFace s"
  shows "\<exists>start. noFaceStartTime s = Some start
     \<and> processFocusDetection s [] now =
         (if now - start \<ge> 10000
          then (s\<lparr>showFocusWarning := True, focusWarningType := Some ''no_face'',
                  noFaceStartTime := Some now\<rparr>,
                [\<lparr>vtype = ''no_face'', message = ''No face detected for '', severity = High\<rparr>])
          else (s, []))"
proof -
  have inv: "focusInvariant s"
    unfolding assms(1) by (rule focusInvariant_reached)
  with assms(2) obtain start where start: "noFaceStartTime s = Some start"
    by (auto simp add: focusInvariant_def)
  from inv assms(2) have "\<not> isCurrentlyLookingAway s"
    by (simp add: focusInvariant_def)
  with assms(2) start show ?thesis
    by (auto simp add: no_face_later_tick)
qed

lemma no_face_scenario:
  "snd (runFocus (initialFocusState t0)
     [([], 0), ([], 5000), ([], 9999), ([], 10000), ([], 15000), ([], 19999), ([], 20000)])
   = [\<lparr>vtype = ''no_face'', message = ''No face detected for '', severity = High\<rparr>,
      \<lparr>vtype = ''no_face'', message = ''No face detected for '', severity = High\<rparr>]"
  "snd (runFocus (initialFocusState t0)
     [([], 0), ([], 5000), ([], 9999), ([], 10000), ([], 15000), ([], 19999)])
   = [\<lparr>vtype = ''no_face'', message = ''No face detected for '', severity = High\<rparr>]"
  "snd (runFocus (initialFocusState t0) [([], 0), ([], 5000), ([], 9999)]) = []"
  by (simp_all add: initialFocusState_def processFocusDetection_def handleNoFaceDetection_def
      resetLookingAwayTimer_def elapsedSince_def noFaceThreshold_def)

text \<open>
  Claim C6. Let \<open>s\<close> be a state the focus logic reaches from the constructor's state by any
  sequence of ticks, and let the next tick show no face at time \<open>now\<close>. If the no-face flag
  is not set, the tick emits nothing and starts the no-face timer at \<open>now\<close>. If it is set,
  the timer holds a start time; when \<open>now - start\<close> is at least 10000 ms the tick emits one
  high-severity \<^verbatim>\<open>no_face\<close> violation, restarts the timer at \<open>now\<close> and sets the warning
  (\<open>showFocusWarning\<close>, type \<^verbatim>\<open>no_face\<close>); otherwise it emits nothing and leaves the state as
  it is, so the timer continues. With no face at times 0, 5000, 9999, 10000, 15000, 19999
  and 20000 the violations are those of the ticks at 10000 and 20000.
\<close>

theorem no_face_timer_threshold:
  "(s = fst (runFocus (initialFocusState t0) ticks) \<longrightarrow>
      (\<not> isCurrentlyNoFace s \<longrightarrow>
         snd (processFocusDetection s [] now) = []
         \<and> isCurrentlyNoFace (fst (processFocusDetection s [] now))
         \<and> noFaceStartTime (fst (processFocusDetection s [] now)) = Some now)
      \<and> (isCurrentlyNoFace s \<longrightarrow>
           (\<exists>start. noFaceStartTime s = Some start
              \<and> processFocusDetection s [] now =
                  (if now - start \<ge> 10000
                   then (s\<lparr>showFocusWarning := True, focusWarningType := Some ''no_face'',
                           noFaceStartTime := Some now\<rparr>,
                         [\<lparr>vtype = ''no_face'', message = ''No face detected for '',
                           severity = High\<rparr>])
                   else (s, [])))))
   \<and> snd (runFocus (initialFocusState t1)
        [([], 0), ([], 5000), ([], 9999), ([], 10000), ([], 15000), ([], 19999), ([], 20000)])
      = [\<lparr>vtype = ''no_face'', message = ''No face detected for '', severity = High\<rparr>,
         \<lparr>vtype = ''no_face'', message = ''No face detected for '', severity = High\<rparr>]
   \<and> snd (runFocus (initialFocusState t1)
        [([], 0), ([], 5000), ([], 9999), ([], 10000), ([], 15000), ([], 19999)])
      = [\<lparr>vtype = ''no_face'', message = ''No face detected for '', severity = High\<rparr>]
   \<and> snd (runFocus (initialFocusState t1) [([], 0), ([], 5000), ([], 9999)]) = []"
  using no_face_first_tick [of s now] no_face_later_tick_reached [of s t0 ticks now]
    no_face_scenario [of t1]
  by blast

text \<open>
  Witness for C6: after no-face ticks at 0 and 5000, the tick at 10000 emits the violation,
  restarts the timer at 10000 and sets the warning.
\<close>

theorem no_face_timer_threshold_witness:
  "isCurrentlyNoFace (fst (runFocus (initialFocusState 0) [([], 0), ([], 5000)]))
   \<and> processFocusDetection (fst (runFocus (initialFocusState 0) [([], 0), ([], 5000)])) [] 10000
     = (\<lparr>lookingAwayStartTime = None, noFaceStartTime = Some 10000,
         isCurrentlyLookingAway = False, isCurrentlyNoFace = True,
         showFocusWarning = True, focusWarningType = Some ''no_face'', lastFaceDetection = 0\<rparr>,
        [\<lparr>vtype = ''no_face'', message = ''No face detected for '', severity = High\<rparr>])"
proof -
  define s where "s = fst (runFocus (initialFocusState 0) [([], 0), ([], 5000)])"
  have reached: "s = \<lparr>lookingAwayStartTime = None, noFaceStartTime = Some 0,
         isCurrentlyLookingAway = False, isCurrentlyNoFace = True,
         showFocusWarning = False, focusWarningType = None, lastFaceDetection = 0\<rparr>"
    unfolding s_def
    by (simp add: initialFocusState_def processFocusDetection_def handleNoFaceDetection_def
        resetLookingAwayTimer_def elapsedSince_def noFaceThreshold_def)
  have flag: "isCurrentlyNoFace s"
    by (simp add: reached)
  from no_face_timer_threshold
      [where s = s and ?t0.0 = 0 and ticks = "[([], 0), ([], 5000)]" and now = 10000]
    s_def flag
  obtain start where start: "noFaceStartTime s = Some start"
    and step: "processFocusDetection s [] 10000 =
        (if 10000 - start \<ge> 10000
         then (s\<lparr>showFocusWarning := True, focusWarningType := Some ''no_face'',
                 noFaceStartTime := Some 10000\<rparr>,
               [\<lparr>vtype = ''no_face'', message = ''No face detected for '', severity = High\<rparr>])
         else (s, []))"
    by blast
  from start have "start = 0"
    by (simp add: reached)
  with step have "processFocusDetection s [] 10000 =
      (s\<lparr>showFocusWarning := True, focusWarningType := Some ''no_face'',
         noFaceStartTime := Some 10000\<rparr>,
       [\<lparr>vtype = ''no_face'', message = ''No face detected for '', severity = High\<rparr>])"
    by simp
  then have "processFocusDetection s [] 10000 =
      (\<lparr>lookingAwayStartTime = None, noFaceStartTime = Some 10000,
         isCurrentlyLookingAway = False, isCurrentlyNoFace = True,
         showFocusWarning = True, focusWarningType = Some ''no_face'', lastFaceDetection = 0\<rparr>,
       [\<lparr>vtype = ''no_face'', message = ''No face detected for '', severity = High\<rparr>])"
    by (simp add: reached)
  with flag show ?thesis
    unfolding s_def by simp
qed

section \<open>Properties of the two gaze estimators\<close>












section \<open>Properties of the violation pathways\<close>


















lemma missing_class_direct:
  "list_ex (\<lambda>p. cls p = None) ps \<Longrightarrow> directMobileDetections ps = Inl TypeError"
  by (induction ps) (auto split: option.splits sum.splits)

lemma missing_class_tick:
  "list_ex (\<lambda>p. cls p = None) ps \<Longrightarrow> detectObjectsWithAI e ps now = (e, [])"
  by (simp add: detectObjectsWithAI_def checkMobilePhoneDetections_def missing_class_direct)





section \<open>Properties of the suspiciousness scorers\<close>


















lemma closerThan_sqrt:
  assumes "0 \<le> d2"
  shows "closerThan d2 m \<longleftrightarrow> sqrt d2 < m"
proof
  assume "closerThan d2 m"
  then have "0 < m" and "d2 < m\<^sup>2"
    by (simp_all add: closerThan_def)
  then show "sqrt d2 < m"
    by (simp add: real_less_lsqrt)
next
  assume less: "sqrt d2 < m"
  have "0 \<le> sqrt d2"
    using assms by simp
  with less have pos: "0 < m"
    by linarith
  from less assms pos have "d2 < m\<^sup>2"
    by (metis real_sqrt_less_iff real_sqrt_abs abs_of_pos)
  with pos show "closerThan d2 m"
    by (simp add: closerThan_def)
qed




section \<open>Properties of the object-detection tick\<close>

text \<open>
  Claim C8, evaluated on the code. A tick whose result list holds a record without a class
  and a well-formed \<^verbatim>\<open>cell phone\<close> of score 0.9: \<^verbatim>\<open>checkMobilePhoneDetections\<close> throws on
  the first record, the \<^verbatim>\<open>catch\<close> of \<^verbatim>\<open>detectObjectsWithAI\<close> swallows the exception, and the
  tick ends with the engine unchanged and no violation. The same tick without the
  malformed record counts the phone in pathway 1 (twice, once more for the advanced
  analysis), in the consecutive-phone counter and in the mobile tracker, and reports an
  electronic device.
\<close>

theorem record_without_class_aborts_tick:
  "detectObjectsWithAI readyEngine [noClass, cellPhone 0.9 (Some (100, 100, 60, 120))] 3000
     = (readyEngine, [])
   \<and> snd (detectObjectsWithAI readyEngine [cellPhone 0.9 (Some (100, 100, 60, 120))] 3000)
     = [\<lparr>vtype = ''electronic_device_detected'',
         message = ''electronic device_detected: cell phone detected with '',
         severity = High\<rparr>]
   \<and> directMobile (violationPathways (fst (detectObjectsWithAI readyEngine
        [cellPhone 0.9 (Some (100, 100, 60, 120))] 3000))) = 2
   \<and> phoneDetectedCount (fst (detectObjectsWithAI readyEngine
        [cellPhone 0.9 (Some (100, 100, 60, 120))] 3000)) = 1
   \<and> map_of (trackedObjects (objectTracker (fst (detectObjectsWithAI readyEngine
        [cellPhone 0.9 (Some (100, 100, 60, 120))] 3000)))) ''mobile''
     = Some \<lparr>consecutiveDetections = 1, missedFrames = 0, lastDetectionTime = Some 3000,
             confidence = 0.9\<rparr>"
proof (intro conjI)
  show "detectObjectsWithAI readyEngine
          [noClass, cellPhone 0.9 (Some (100, 100, 60, 120))] 3000 = (readyEngine, [])"
    by (rule missing_class_tick) (simp add: noClass_def)
qed code_simp+

end
